theory Spec2Isabelle
  imports Complex_Main
begin

section \<open>Errors, vectors and numpy-style arrays\<close>

text \<open>
  The module \<^verbatim>\<open>matscipy/calculators/manybody/calculator.py\<close> is embedded over the
  reals (exact arithmetic): a numpy array of floats is a \<^typ>\<open>real list\<close>, an
  \<open>N \<times> 3\<close> array is a list of three-component vectors, an index array is a
  \<^typ>\<open>nat list\<close>.  Every Python exception the embedded code can raise is a value of
  the type \<open>error\<close>; a method returns \<open>error + 'a\<close> with \<open>Inl\<close> for the exception.
  \<open>NeighbourListError\<close> stands for any failure of the neighbour list, and
  \<open>NotImplementedError\<close> is Python's unsupported-operation error, which the module
  never raises.
\<close>

datatype error =
    IndexError
  | ValueError
  | KeyError
  | NeighbourListError
  | NameError string
  | AttributeError string
  | RuntimeError string
  | NotImplementedError

definition bind_err :: "error + 'a \<Rightarrow> ('a \<Rightarrow> error + 'b) \<Rightarrow> error + 'b" where
  "bind_err m f = (case m of Inl e \<Rightarrow> Inl e | Inr v \<Rightarrow> f v)"

datatype vec3 = Vec3 (vx: real) (vy: real) (vz: real)

instantiation vec3 :: ab_group_add
begin

definition zero_vec3_def: "0 = Vec3 0 0 0"

definition plus_vec3_def: "a + b = Vec3 (vx a + vx b) (vy a + vy b) (vz a + vz b)"

definition uminus_vec3_def: "- a = Vec3 (- vx a) (- vy a) (- vz a)"

definition minus_vec3_def: "a - b = Vec3 (vx a - vx b) (vy a - vy b) (vz a - vz b)"

instance
  by standard
    (simp_all add: zero_vec3_def plus_vec3_def uminus_vec3_def minus_vec3_def)

end

text \<open>\<^verbatim>\<open>(s * v.T).T\<close> for a scalar per row: the vector scaled by the scalar.\<close>

definition smul :: "real \<Rightarrow> vec3 \<Rightarrow> vec3" where
  "smul s v = Vec3 (s * vx v) (s * vy v) (s * vz v)"

text \<open>\<^verbatim>\<open>np.sum(v ** 2, axis=1)\<close> on one row.\<close>

definition sq_norm :: "vec3 \<Rightarrow> real" where
  "sq_norm v = vx v * vx v + vy v * vy v + vz v * vz v"

text \<open>
  Cartesian components are numbered 0, 1, 2.  A \<open>3 \<times> 3\<close> block and a
  \<open>3 \<times> 3 \<times> 3 \<times> 3\<close> tensor are functions of their indices.  \<open>outer\<close> and
  \<open>outer4\<close> are the helper \<^verbatim>\<open>_o\<close> of the source on one row, with two and with four
  arguments.
\<close>

type_synonym block = "nat \<Rightarrow> nat \<Rightarrow> real"

type_synonym tensor4 = "nat \<Rightarrow> nat \<Rightarrow> nat \<Rightarrow> nat \<Rightarrow> real"

definition vcomp :: "vec3 \<Rightarrow> nat \<Rightarrow> real" where
  "vcomp v k = (if k = 0 then vx v else if k = 1 then vy v else vz v)"

definition outer :: "vec3 \<Rightarrow> vec3 \<Rightarrow> block" where
  "outer u v x y = vcomp u x * vcomp v y"

definition outer4 :: "vec3 \<Rightarrow> vec3 \<Rightarrow> vec3 \<Rightarrow> vec3 \<Rightarrow> tensor4" where
  "outer4 u v w z a b c d = vcomp u a * vcomp v b * vcomp w c * vcomp z d"

text \<open>
  Fancy indexing \<^verbatim>\<open>a[idx]\<close>.  numpy raises \<^verbatim>\<open>IndexError\<close> when an index is out of
  range; every method below tests the range (\<open>in_range\<close>) at the first line that
  indexes with the array and returns \<open>Inl IndexError\<close> there, so \<open>gather\<close> is only
  ever applied to indices in range.
\<close>

definition gather :: "'a list \<Rightarrow> nat list \<Rightarrow> 'a list" where
  "gather a idx = map (\<lambda>k. a ! k) idx"

definition in_range :: "nat \<Rightarrow> nat list \<Rightarrow> bool" where
  "in_range n idx = list_all (\<lambda>k. k < n) idx"

text \<open>
  \<^verbatim>\<open>np.bincount(x, weights=w, minlength=n)\<close>: a zero buffer with
  \<open>max n (max x + 1)\<close> bins, into which every weight is added at its key, in order.
  numpy raises \<^verbatim>\<open>ValueError\<close> when \<open>x\<close> and \<open>w\<close> differ in length.
\<close>

fun scatter_add :: "nat list \<Rightarrow> real list \<Rightarrow> real list \<Rightarrow> real list" where
  "scatter_add (k # ks) (w # ws) acc = scatter_add ks ws (acc[k := acc ! k + w])"
| "scatter_add _ _ acc = acc"

definition nb_bins :: "nat list \<Rightarrow> nat \<Rightarrow> nat" where
  "nb_bins x minlength = fold (\<lambda>k m. max (Suc k) m) x minlength"

definition bincount :: "nat list \<Rightarrow> real list \<Rightarrow> nat \<Rightarrow> error + real list" where
  "bincount x w minlength =
     (if length w \<noteq> length x then Inl ValueError
      else Inr (scatter_add x w (replicate (nb_bins x minlength) 0)))"

text \<open>
  Modelled from the spec: \<^verbatim>\<open>matscipy.numpy_tricks.mabincount\<close>, which the module
  imports from another file of the repository.  The spec describes the scatter-add reductions as an
  accumulate-by-key primitive, ``a mapping from key to running sum, built by iterating
  contributions and adding into pre-sized buffers''.  The buffer has \<open>minlength\<close> rows
  of three components; each component is accumulated with \<open>bincount\<close>; a key outside
  the pre-sized buffer is an error.
\<close>

definition mabincount :: "nat list \<Rightarrow> vec3 list \<Rightarrow> nat \<Rightarrow> error + vec3 list" where
  "mabincount x w minlength =
     bind_err (bincount x (map vx w) minlength) (\<lambda>bx.
     bind_err (bincount x (map vy w) minlength) (\<lambda>by.
     bind_err (bincount x (map vz w) minlength) (\<lambda>bz.
       if length bx \<noteq> minlength then Inl ValueError
       else Inr (map (\<lambda>n. Vec3 (bx ! n) (by ! n) (bz ! n)) [0..<minlength]))))"

text \<open>
  Modelled from the spec: the same \<^verbatim>\<open>mabincount\<close> on an array of \<open>3 \<times> 3\<close> blocks
  (line 532): every component is accumulated by key into a buffer of \<open>minlength\<close>
  rows.
\<close>

definition mabincount_cc :: "nat list \<Rightarrow> block list \<Rightarrow> nat \<Rightarrow> error + block list" where
  "mabincount_cc x w minlength =
     (if length w \<noteq> length x \<or> \<not> in_range minlength x then Inl ValueError
      else Inr (map (\<lambda>n a b.
             scatter_add x (map (\<lambda>B. B a b) w) (replicate minlength 0) ! n) [0..<minlength]))"

text \<open>
  The potential callables, \<^verbatim>\<open>atom_type\<close> and \<^verbatim>\<open>pair_type\<close> are numpy-vectorised
  scalar functions: a call on a batch of argument arrays returns one value per batch
  element, computed from the elements at that position.
\<close>

definition vectorize5 ::
  "('a \<Rightarrow> 'b \<Rightarrow> 'c \<Rightarrow> 'd \<Rightarrow> 'e \<Rightarrow> 'r) \<Rightarrow> 'a list \<Rightarrow> 'b list \<Rightarrow> 'c list \<Rightarrow> 'd list \<Rightarrow> 'e list \<Rightarrow> 'r list"
where
  "vectorize5 f A B C D E =
     map (\<lambda>k. f (A ! k) (B ! k) (C ! k) (D ! k) (E ! k)) [0..<length A]"

definition vectorize9 ::
  "('a \<Rightarrow> 'b \<Rightarrow> 'c \<Rightarrow> 'd \<Rightarrow> 'e \<Rightarrow> 'f \<Rightarrow> 'g \<Rightarrow> 'h \<Rightarrow> 'i \<Rightarrow> 'r) \<Rightarrow>
   'a list \<Rightarrow> 'b list \<Rightarrow> 'c list \<Rightarrow> 'd list \<Rightarrow> 'e list \<Rightarrow> 'f list \<Rightarrow> 'g list \<Rightarrow> 'h list \<Rightarrow> 'i list \<Rightarrow>
   'r list"
where
  "vectorize9 f A B C D E F G H I =
     map (\<lambda>k. f (A ! k) (B ! k) (C ! k) (D ! k) (E ! k) (F ! k) (G ! k) (H ! k) (I ! k))
       [0..<length A]"

section \<open>The data model\<close>

text \<open>
  The host framework's atom container, as far as the module reads it:
  \<^verbatim>\<open>atoms.numbers\<close>, \<^verbatim>\<open>len(atoms)\<close>, \<^verbatim>\<open>atoms.get_volume()\<close>,
  \<^verbatim>\<open>atoms.get_masses()\<close>.  The positions are read by the neighbour list only.
\<close>

record ase_atoms =
  numbers :: "nat list"
  positions :: "real list list"
  masses :: "real list"
  volume :: real

definition len_atoms :: "ase_atoms \<Rightarrow> nat" where
  "len_atoms a = length (numbers a)"

text \<open>
  One row of the neighbour list \<^verbatim>\<open>neighbour_list('ijdD', ...)\<close>: first atom, second
  atom, distance, distance vector.  The four arrays \<^verbatim>\<open>i_p, j_p, r_p, r_pc\<close> of the
  source are the columns.
\<close>

record nl_pair =
  p_i :: nat
  p_j :: nat
  p_d :: real
  p_D :: vec3

definition i_p :: "nl_pair list \<Rightarrow> nat list" where "i_p ps = map p_i ps"
definition j_p :: "nl_pair list \<Rightarrow> nat list" where "j_p ps = map p_j ps"
definition r_p :: "nl_pair list \<Rightarrow> real list" where "r_p ps = map p_d ps"
definition r_pc :: "nl_pair list \<Rightarrow> vec3 list" where "r_pc ps = map p_D ps"

text \<open>The triplet list: rows of pair indices \<^verbatim>\<open>(ij_t, ik_t)\<close>.\<close>

definition ij_t :: "(nat \<times> nat) list \<Rightarrow> nat list" where "ij_t ts = map fst ts"
definition ik_t :: "(nat \<times> nat) list \<Rightarrow> nat list" where "ik_t ts = map snd ts"

text \<open>
  The functions that the module imports from \<^verbatim>\<open>matscipy.neighbours\<close> are
  parameters of the embedding.  \<open>triplet_list_jk\<close> is \<^verbatim>\<open>triplet_list\<close> called with
  five arguments, which returns a third index array.  A failure of the neighbour list
  is \<open>None\<close>.
\<close>

record collaborators =
  neighbour_list :: "ase_atoms \<Rightarrow> real \<Rightarrow> nl_pair list option"
  first_neighbours :: "nat \<Rightarrow> nat list \<Rightarrow> nat list"
  triplet_list :: "nat list \<Rightarrow> (nat \<times> nat) list"
  triplet_list_jk ::
    "nat list \<Rightarrow> real list \<Rightarrow> real \<Rightarrow> nat list \<Rightarrow> nat list \<Rightarrow> (nat \<times> nat \<times> nat) list"
  find_indices_of_reversed_pairs :: "nat list \<Rightarrow> nat list \<Rightarrow> real list \<Rightarrow> nat list"

type_synonym phi_fn = "real \<Rightarrow> real \<Rightarrow> real \<Rightarrow> nat \<Rightarrow> nat \<Rightarrow> real"

type_synonym theta_fn =
  "real \<Rightarrow> real \<Rightarrow> real \<Rightarrow> real \<Rightarrow> real \<Rightarrow> real \<Rightarrow> nat \<Rightarrow> nat \<Rightarrow> nat \<Rightarrow> real"

text \<open>\<^verbatim>\<open>self.cutoff\<close>: a scalar, or a table indexed by the pair type.\<close>

datatype cutoff_spec = Scalar real | Table "nat \<Rightarrow> real option"

record calc_results =
  free_energy :: real
  energy :: real
  stress :: "real list"
  forces :: "vec3 list"

text \<open>
  A \<^verbatim>\<open>Manybody\<close> object: the attributes that \<^verbatim>\<open>__init__\<close> stores, and the two
  attributes of the base class that the module reads and writes (\<^verbatim>\<open>self.atoms\<close>,
  \<^verbatim>\<open>self.results\<close>); \<open>None\<close> when nothing has been stored yet.
\<close>

record manybody =
  atom_type :: "nat \<Rightarrow> nat"
  pair_type :: "nat \<Rightarrow> nat \<Rightarrow> nat"
  phi :: phi_fn
  d1phi :: phi_fn
  d2phi :: phi_fn
  d11phi :: phi_fn
  d12phi :: phi_fn
  d22phi :: phi_fn
  theta :: theta_fn
  d1theta :: theta_fn
  d2theta :: theta_fn
  d3theta :: theta_fn
  d11theta :: theta_fn
  d12theta :: theta_fn
  d13theta :: theta_fn
  d22theta :: theta_fn
  d23theta :: theta_fn
  d33theta :: theta_fn
  cutoff :: cutoff_spec
  atoms :: "ase_atoms option"
  results :: "calc_results option"

definition Manybody_init ::
  "(nat \<Rightarrow> nat) \<Rightarrow> (nat \<Rightarrow> nat \<Rightarrow> nat) \<Rightarrow>
   phi_fn \<Rightarrow> phi_fn \<Rightarrow> phi_fn \<Rightarrow> phi_fn \<Rightarrow> phi_fn \<Rightarrow> phi_fn \<Rightarrow>
   theta_fn \<Rightarrow> theta_fn \<Rightarrow> theta_fn \<Rightarrow> theta_fn \<Rightarrow> theta_fn \<Rightarrow>
   theta_fn \<Rightarrow> theta_fn \<Rightarrow> theta_fn \<Rightarrow> theta_fn \<Rightarrow> theta_fn \<Rightarrow>
   cutoff_spec \<Rightarrow> manybody"
where
  "Manybody_init atom_type' pair_type' phi' d1phi' d2phi' d11phi' d12phi' d22phi'
     theta' d1theta' d2theta' d3theta' d11theta' d12theta' d13theta' d22theta' d23theta'
     d33theta' cutoff' =
   \<lparr> atom_type = atom_type', pair_type = pair_type',
     phi = phi', d1phi = d1phi', d2phi = d2phi',
     d11phi = d11phi', d12phi = d12phi', d22phi = d22phi',
     theta = theta', d1theta = d1theta', d2theta = d2theta', d3theta = d3theta',
     d11theta = d11theta', d12theta = d12theta', d13theta = d13theta',
     d22theta = d22theta', d23theta = d23theta', d33theta = d33theta',
     cutoff = cutoff', atoms = None, results = None \<rparr>"

section \<open>\<^verbatim>\<open>get_cutoff\<close>\<close>

text \<open>
  A scalar cutoff is returned as it is; otherwise the maximum of the table over the pair
  types of all combinations of the elements present, starting from 0.  A pair type
  missing from the table raises.
\<close>

definition get_cutoff :: "manybody \<Rightarrow> ase_atoms \<Rightarrow> error + real" where
  "get_cutoff self a =
     (case cutoff self of
        Scalar c \<Rightarrow> Inr c
      | Table tab \<Rightarrow>
          (let elements = remdups (numbers a);
               keys = concat (map (\<lambda>i. map (\<lambda>j.
                        pair_type self (atom_type self i) (atom_type self j)) elements) elements)
           in if list_ex (\<lambda>p. tab p = None) keys then Inl KeyError
              else Inr (fold (\<lambda>p c. max c (the (tab p))) keys 0)))"

section \<open>Scalar field evaluation\<close>

text \<open>
  Lines 131--149 of \<^verbatim>\<open>calculate\<close> (and the same lines of \<^verbatim>\<open>get_hessian\<close> and
  \<^verbatim>\<open>get_born_elastic_constants\<close>): the triplet geometry, the type codes, and one
  function \<open>f\<close> of the \<open>theta\<close> family called on them.
\<close>

definition theta_family ::
  "manybody \<Rightarrow> theta_fn \<Rightarrow> nl_pair list \<Rightarrow> (nat \<times> nat) list \<Rightarrow> nat list \<Rightarrow> real list"
where
  "theta_family self f ps ts t_n =
     (let rij_t = gather (r_p ps) (ij_t ts);
          Rij_t = map2 (*) rij_t rij_t;
          rik_t = gather (r_p ps) (ik_t ts);
          Rik_t = map2 (*) rik_t rik_t;
          Rjk_t = map sq_norm
                    (map2 (-) (gather (r_pc ps) (ik_t ts)) (gather (r_pc ps) (ij_t ts)));
          rjk_t = map sqrt Rjk_t;
          ti_t = gather t_n (gather (i_p ps) (ij_t ts));
          tij_t = map2 (pair_type self) ti_t (gather t_n (gather (j_p ps) (ij_t ts)));
          tik_t = map2 (pair_type self) ti_t (gather t_n (gather (j_p ps) (ik_t ts)))
      in vectorize9 f Rij_t rij_t Rik_t rik_t Rjk_t rjk_t ti_t tij_t tik_t)"

text \<open>
  Lines 123, 139--140 and 153--155: one function \<open>f\<close> of the \<open>phi\<close> family called on
  the squared distances, the distances, the coordination \<open>xi_p\<close> and the type codes.
\<close>

definition phi_family ::
  "manybody \<Rightarrow> phi_fn \<Rightarrow> nl_pair list \<Rightarrow> real list \<Rightarrow> nat list \<Rightarrow> real list"
where
  "phi_family self f ps xi_p t_n =
     (let R_p = map2 (*) (r_p ps) (r_p ps);
          ti_p = gather t_n (i_p ps);
          tij_p = map2 (pair_type self) ti_p (gather t_n (j_p ps))
      in vectorize5 f R_p (r_p ps) xi_p ti_p tij_p)"

section \<open>\<^verbatim>\<open>calculate\<close>: energy, forces, stress\<close>

text \<open>Forces per pair (line 161) and per triplet (lines 164--166).\<close>

definition fij_pc :: "real list \<Rightarrow> nl_pair list \<Rightarrow> vec3 list" where
  "fij_pc d1phi_p ps = map2 smul d1phi_p (r_pc ps)"

definition fij_tc ::
  "real list \<Rightarrow> real list \<Rightarrow> nl_pair list \<Rightarrow> (nat \<times> nat) list \<Rightarrow> vec3 list" where
  "fij_tc d2phi_p d1theta_t ps ts =
     map2 smul (map2 (*) (gather d2phi_p (ij_t ts)) d1theta_t) (gather (r_pc ps) (ij_t ts))"

definition fik_tc ::
  "real list \<Rightarrow> real list \<Rightarrow> nl_pair list \<Rightarrow> (nat \<times> nat) list \<Rightarrow> vec3 list" where
  "fik_tc d2phi_p d2theta_t ps ts =
     map2 smul (map2 (*) (gather d2phi_p (ij_t ts)) d2theta_t) (gather (r_pc ps) (ik_t ts))"

definition fjk_tc ::
  "real list \<Rightarrow> real list \<Rightarrow> nl_pair list \<Rightarrow> (nat \<times> nat) list \<Rightarrow> vec3 list" where
  "fjk_tc d2phi_p d3theta_t ps ts =
     map2 smul (map2 (*) (gather d2phi_p (ij_t ts)) d3theta_t)
       (map2 (-) (gather (r_pc ps) (ik_t ts)) (gather (r_pc ps) (ij_t ts)))"

text \<open>Atomic forces (lines 169--174): eight scatter-adds, combined with their signs.\<close>

definition f_nc ::
  "nat \<Rightarrow> nl_pair list \<Rightarrow> (nat \<times> nat) list \<Rightarrow>
   vec3 list \<Rightarrow> vec3 list \<Rightarrow> vec3 list \<Rightarrow> vec3 list \<Rightarrow> error + vec3 list"
where
  "f_nc nb_atoms ps ts fij_p fij_t fik_t fjk_t =
     bind_err (mabincount (i_p ps) fij_p nb_atoms) (\<lambda>a1.
     bind_err (mabincount (j_p ps) fij_p nb_atoms) (\<lambda>a2.
     bind_err (mabincount (gather (i_p ps) (ij_t ts)) fij_t nb_atoms) (\<lambda>b1.
     bind_err (mabincount (gather (j_p ps) (ij_t ts)) fij_t nb_atoms) (\<lambda>b2.
     bind_err (mabincount (gather (i_p ps) (ik_t ts)) fik_t nb_atoms) (\<lambda>b3.
     bind_err (mabincount (gather (j_p ps) (ik_t ts)) fik_t nb_atoms) (\<lambda>b4.
     bind_err (mabincount (gather (j_p ps) (ij_t ts)) fjk_t nb_atoms) (\<lambda>b5.
     bind_err (mabincount (gather (j_p ps) (ik_t ts)) fjk_t nb_atoms) (\<lambda>b6.
       Inr (map2 (+) (map2 (-) a1 a2)
             (map2 (-) (map2 (+) (map2 (-) (map2 (+) (map2 (-) b1 b2) b3) b4) b5) b6))))))))))"

text \<open>
  The six rows of the virial arrays (lines 177--184 and 187--194), in the order the
  source lists them: products of the components (0,0), (1,1), (2,2), (1,2), (0,2), (0,1)
  of a distance vector and a force.  (The comments of the fourth and the fifth row in
  the source, \<^verbatim>\<open>xz\<close> and \<^verbatim>\<open>yz\<close>, are interchanged; the rows are as given here.)
\<close>

definition virial_rows :: "vec3 list \<Rightarrow> vec3 list \<Rightarrow> real list list" where
  "virial_rows r f =
     [map2 (*) (map vx r) (map vx f),
      map2 (*) (map vy r) (map vy f),
      map2 (*) (map vz r) (map vz f),
      map2 (*) (map vy r) (map vz f),
      map2 (*) (map vx r) (map vz f),
      map2 (*) (map vx r) (map vy f)]"

definition virial_pair :: "nl_pair list \<Rightarrow> vec3 list \<Rightarrow> real list" where
  "virial_pair ps fij_p = map sum_list (virial_rows (r_pc ps) fij_p)"

definition virial_triplet ::
  "nl_pair list \<Rightarrow> (nat \<times> nat) list \<Rightarrow> vec3 list \<Rightarrow> vec3 list \<Rightarrow> vec3 list \<Rightarrow> real list"
where
  "virial_triplet ps ts fij_t fik_t fjk_t =
     map sum_list
       (map2 (map2 (+))
          (map2 (map2 (+))
             (virial_rows (gather (r_pc ps) (ij_t ts)) fij_t)
             (virial_rows (gather (r_pc ps) (ik_t ts)) fik_t))
          (virial_rows
             (map2 (-) (gather (r_pc ps) (ik_t ts)) (gather (r_pc ps) (ij_t ts))) fjk_t))"

text \<open>
  \<^verbatim>\<open>calculate\<close>.  The call of the base class at line 115 stores a copy of the
  configuration in \<^verbatim>\<open>self.atoms\<close> (the arguments \<^verbatim>\<open>properties\<close> and
  \<^verbatim>\<open>system_changes\<close> are only passed on to it); the results dictionary is replaced
  at the end.  The range tests stand where the source first indexes with the triplet
  arrays (line 131) and with the pair arrays (line 139).
\<close>

definition calculate :: "collaborators \<Rightarrow> manybody \<Rightarrow> ase_atoms \<Rightarrow> error + manybody" where
  "calculate E self0 a =
     (let self = self0\<lparr>atoms := Some a\<rparr>;
          t_n = map (atom_type self) (numbers a)
      in bind_err (get_cutoff self a) (\<lambda>cutoff'.
         case neighbour_list E a cutoff' of
           None \<Rightarrow> Inl NeighbourListError
         | Some ps \<Rightarrow>
            (let nb_atoms = len_atoms a;
                 nb_pairs = length ps;
                 first_n = first_neighbours E nb_atoms (i_p ps);
                 ts = triplet_list E first_n
             in if \<not> (in_range nb_pairs (ij_t ts) \<and> in_range nb_pairs (ik_t ts))
                then Inl IndexError
                else if \<not> (in_range (length t_n) (i_p ps) \<and> in_range (length t_n) (j_p ps))
                then Inl IndexError
                else
                  (let theta_t = theta_family self (theta self) ps ts t_n;
                       d1theta_t = theta_family self (d1theta self) ps ts t_n;
                       d2theta_t = theta_family self (d2theta self) ps ts t_n;
                       d3theta_t = theta_family self (d3theta self) ps ts t_n
                   in bind_err (bincount (ij_t ts) theta_t nb_pairs) (\<lambda>xi_p.
                      let phi_p = phi_family self (phi self) ps xi_p t_n;
                          d1phi_p = phi_family self (d1phi self) ps xi_p t_n;
                          d2phi_p = phi_family self (d2phi self) ps xi_p t_n;
                          epot = (1 / 2) * sum_list phi_p;
                          fij_p = fij_pc d1phi_p ps;
                          fij_t = fij_tc d2phi_p d1theta_t ps ts;
                          fik_t = fik_tc d2phi_p d2theta_t ps ts;
                          fjk_t = fjk_tc d2phi_p d3theta_t ps ts
                      in bind_err (f_nc nb_atoms ps ts fij_p fij_t fik_t fjk_t) (\<lambda>forces'.
                         let virial_v = map2 (+) (virial_pair ps fij_p)
                                          (virial_triplet ps ts fij_t fik_t fjk_t)
                         in Inr (self\<lparr>results := Some
                              \<lparr> free_energy = epot, energy = epot,
                                stress = map (\<lambda>v. v / volume a) virial_v,
                                forces = forces' \<rparr>\<rparr>))))))) "

subsection \<open>The virial, in the words of the specification\<close>

text \<open>
  The specification describes the stress as the sum over pairs of the outer product of
  the distance vector with the pair force, plus the outer products of the three bond
  vectors of each triplet with their force contributions, reduced to the six components
  \<open>(xx, yy, zz, yz, xz, xy)\<close> and divided by the volume.  \<open>virial_tensor\<close> is that
  \<open>3 \<times> 3\<close> tensor and \<open>voigt\<close> the reduction; components are numbered 0, 1, 2.
\<close>

definition virial_tensor ::
  "nl_pair list \<Rightarrow> (nat \<times> nat) list \<Rightarrow> vec3 list \<Rightarrow> vec3 list \<Rightarrow> vec3 list \<Rightarrow> vec3 list \<Rightarrow>
   nat \<Rightarrow> nat \<Rightarrow> real"
where
  "virial_tensor ps ts fij_p fij_t fik_t fjk_t x y =
     (\<Sum>p\<leftarrow>[0..<length ps]. outer (p_D (ps ! p)) (fij_p ! p) x y) +
     (\<Sum>t\<leftarrow>[0..<length ts].
        outer (p_D (ps ! fst (ts ! t))) (fij_t ! t) x y +
        outer (p_D (ps ! snd (ts ! t))) (fik_t ! t) x y +
        outer (p_D (ps ! snd (ts ! t)) - p_D (ps ! fst (ts ! t))) (fjk_t ! t) x y)"

definition voigt :: "(nat \<Rightarrow> nat \<Rightarrow> real) \<Rightarrow> real list" where
  "voigt W = [W 0 0, W 1 1, W 2 2, W 1 2, W 0 2, W 0 1]"

section \<open>\<^verbatim>\<open>get_hessian\<close>\<close>

text \<open>
  \<^verbatim>\<open>if self.atoms is None: self.atoms = atoms\<close>: the configuration that the object
  holds after this statement.  Unlike \<^verbatim>\<open>calculate\<close>, the methods below keep a
  configuration stored by an earlier call, and take \<^verbatim>\<open>nb_atoms = len(self.atoms)\<close>
  from it.
\<close>

definition stored_atoms :: "manybody \<Rightarrow> ase_atoms \<Rightarrow> ase_atoms" where
  "stored_atoms self a = (case atoms self of None \<Rightarrow> a | Some sa \<Rightarrow> sa)"

text \<open>\<^verbatim>\<open>n_pc = (r_pc.T / r_p).T\<close>.\<close>

definition n_pc :: "nl_pair list \<Rightarrow> vec3 list" where
  "n_pc ps = map2 (\<lambda>D d. Vec3 (vx D / d) (vy D / d) (vz D / d)) (r_pc ps) (r_p ps)"

text \<open>
  What \<^verbatim>\<open>get_hessian\<close> would return: the sum of the two block-sparse matrices (blocks
  per pair with their column indices and row offsets, and the diagonal blocks per
  atom), the neighbour-list format, or \<^verbatim>\<open>None\<close> for any other format string.
\<close>

datatype hessian_out =
    Bsr_sum "block list" "nat list" "nat list" "block list"
  | Neighbour_list_format "block list" "nat list" "nat list" "vec3 list" "real list"
  | None_out

text \<open>
  \<^verbatim>\<open>get_hessian\<close>, lines 227--282.  The neighbour list is built with twice the cutoff.
  The method never binds the name \<^verbatim>\<open>R_p\<close> (\<^verbatim>\<open>calculate\<close> does so at line 123 and
  \<^verbatim>\<open>get_born_elastic_constants\<close> at line 467), and the module has no global of that
  name: evaluating the arguments of \<^verbatim>\<open>self.d2phi(R_p, ...)\<close> at line 279 raises
  \<^verbatim>\<open>NameError\<close>.  Lines 279--311 are therefore never reached; the right-hand side of
  line 285 is missing in the source.
\<close>

definition get_hessian ::
  "collaborators \<Rightarrow> manybody \<Rightarrow> ase_atoms \<Rightarrow> string \<Rightarrow> bool \<Rightarrow> error + hessian_out"
where
  "get_hessian E self0 a format divide_by_masses =
     (let self = self0\<lparr>atoms := Some (stored_atoms self0 a)\<rparr>;
          t_n = map (atom_type self) (numbers a)
      in bind_err (get_cutoff self a) (\<lambda>cutoff'.
         case neighbour_list E a (2 * cutoff') of
           None \<Rightarrow> Inl NeighbourListError
         | Some ps \<Rightarrow>
            (let mask_p = map (\<lambda>d. d > cutoff') (r_p ps);
                 nb_atoms = len_atoms (stored_atoms self0 a);
                 nb_pairs = length ps;
                 tr_p = find_indices_of_reversed_pairs E (i_p ps) (j_p ps) (r_p ps);
                 normals = n_pc ps;
                 first_n = first_neighbours E nb_atoms (i_p ps);
                 ts = triplet_list E first_n
             in if \<not> (in_range nb_pairs (ij_t ts) \<and> in_range nb_pairs (ik_t ts))
                then Inl IndexError
                else if \<not> (in_range (length t_n) (i_p ps) \<and> in_range (length t_n) (j_p ps))
                then Inl IndexError
                else
                  (let theta_t = theta_family self (theta self) ps ts t_n;
                       d1theta_t = theta_family self (d1theta self) ps ts t_n;
                       d2theta_t = theta_family self (d2theta self) ps ts t_n;
                       d3theta_t = theta_family self (d3theta self) ps ts t_n;
                       d11theta_t = theta_family self (d11theta self) ps ts t_n;
                       d22theta_t = theta_family self (d22theta self) ps ts t_n;
                       d33theta_t = theta_family self (d33theta self) ps ts t_n;
                       d12theta_t = theta_family self (d12theta self) ps ts t_n;
                       d23theta_t = theta_family self (d23theta self) ps ts t_n;
                       d13theta_t = theta_family self (d13theta self) ps ts t_n
                   in bind_err (bincount (ij_t ts) theta_t nb_pairs) (\<lambda>xi_p.
                        Inl (NameError ''R_p''))))))"

text \<open>
  Lines 291--294, which \<^verbatim>\<open>get_hessian\<close> does not reach: the diagonal blocks, on a given
  array \<open>H_pcc\<close> of blocks per pair.  For each of the nine components
  \<^verbatim>\<open>H_acc[:, x, y] = -np.bincount(i_p, weights=H_pcc[:, x, y])\<close>; the call passes no
  \<^verbatim>\<open>minlength\<close>, so the right-hand side has \<open>max i_p + 1\<close> entries, and numpy assigns
  it to the \<open>nb_atoms\<close> entries of the left-hand side only when the lengths agree or
  the right-hand side has one entry (which is then written to every atom).
\<close>

fun hessian_diag_loop ::
  "(nat \<times> nat) list \<Rightarrow> nat list \<Rightarrow> block list \<Rightarrow> block list \<Rightarrow> error + block list"
where
  "hessian_diag_loop [] i H_pcc H_acc = Inr H_acc"
| "hessian_diag_loop ((x, y) # xys) i H_pcc H_acc =
     bind_err (bincount i (map (\<lambda>B. B x y) H_pcc) 0) (\<lambda>w.
       if length w = length H_acc
       then hessian_diag_loop xys i H_pcc
              (map2 (\<lambda>B v. B(x := (B x)(y := - v))) H_acc w)
       else if length w = 1
       then hessian_diag_loop xys i H_pcc
              (map (\<lambda>B. B(x := (B x)(y := - (w ! 0)))) H_acc)
       else Inl ValueError)"

definition H_acc :: "nat \<Rightarrow> nl_pair list \<Rightarrow> block list \<Rightarrow> error + block list" where
  "H_acc nb_atoms ps H_pcc =
     hessian_diag_loop (concat (map (\<lambda>x. map (\<lambda>y. (x, y)) [0..<3]) [0..<3])) (i_p ps) H_pcc
       (replicate nb_atoms (\<lambda>x y. 0))"

section \<open>\<^verbatim>\<open>get_born_elastic_constants\<close>\<close>

text \<open>
  Lines 511--534: the four terms of \<open>C_abab\<close>.  \<open>tmpij_pcc\<close> is the result of the
  scatter-add of line 532, whose argument is \<open>born_blocks\<close>.
\<close>

definition born_blocks ::
  "manybody \<Rightarrow> nl_pair list \<Rightarrow> (nat \<times> nat) list \<Rightarrow> nat list \<Rightarrow> block list"
where
  "born_blocks self ps ts t_n =
     (let rij_tc = gather (r_pc ps) (ij_t ts);
          rik_tc = gather (r_pc ps) (ik_t ts);
          rjk_tc = map2 (-) rik_tc rij_tc;
          d1theta_t = theta_family self (d1theta self) ps ts t_n;
          d2theta_t = theta_family self (d2theta self) ps ts t_n;
          d3theta_t = theta_family self (d3theta self) ps ts t_n
      in map (\<lambda>t a b.
            d1theta_t ! t * outer (rij_tc ! t) (rij_tc ! t) a b +
            d2theta_t ! t * outer (rik_tc ! t) (rik_tc ! t) a b +
            d3theta_t ! t * outer (rjk_tc ! t) (rjk_tc ! t) a b) [0..<length ts])"

definition born_C_abab ::
  "manybody \<Rightarrow> nl_pair list \<Rightarrow> (nat \<times> nat) list \<Rightarrow> nat list \<Rightarrow> real list \<Rightarrow> block list \<Rightarrow> tensor4"
where
  "born_C_abab self ps ts t_n xi_p tmpij_pcc a b c d =
     (let rij = gather (r_pc ps) (ij_t ts);
          rik = gather (r_pc ps) (ik_t ts);
          rjk = map2 (-) rik rij;
          d1theta_t = theta_family self (d1theta self) ps ts t_n;
          d2theta_t = theta_family self (d2theta self) ps ts t_n;
          d3theta_t = theta_family self (d3theta self) ps ts t_n;
          d11theta_t = theta_family self (d11theta self) ps ts t_n;
          d22theta_t = theta_family self (d22theta self) ps ts t_n;
          d33theta_t = theta_family self (d33theta self) ps ts t_n;
          d12theta_t = theta_family self (d12theta self) ps ts t_n;
          d23theta_t = theta_family self (d23theta self) ps ts t_n;
          d13theta_t = theta_family self (d13theta self) ps ts t_n;
          d2phi_p = phi_family self (d2phi self) ps xi_p t_n;
          d11phi_p = phi_family self (d11phi self) ps xi_p t_n;
          d22phi_p = phi_family self (d22phi self) ps xi_p t_n;
          d12phi_p = phi_family self (d12phi self) ps xi_p t_n
      in (\<Sum>p\<leftarrow>[0..<length ps].
            d11phi_p ! p *
              outer4 (r_pc ps ! p) (r_pc ps ! p) (r_pc ps ! p) (r_pc ps ! p) a b c d)
       + (\<Sum>t\<leftarrow>[0..<length ts].
            d2phi_p ! (ij_t ts ! t) *
              (d11theta_t ! t * outer4 (rij ! t) (rij ! t) (rij ! t) (rij ! t) a b c d
               + d12theta_t ! t * (outer4 (rij ! t) (rij ! t) (rik ! t) (rik ! t) a b c d
                                   + outer4 (rik ! t) (rik ! t) (rij ! t) (rij ! t) a b c d)
               + d13theta_t ! t * (outer4 (rij ! t) (rij ! t) (rjk ! t) (rjk ! t) a b c d
                                   + outer4 (rjk ! t) (rjk ! t) (rij ! t) (rij ! t) a b c d)
               + d22theta_t ! t * outer4 (rik ! t) (rik ! t) (rik ! t) (rik ! t) a b c d
               + d23theta_t ! t * (outer4 (rik ! t) (rik ! t) (rjk ! t) (rjk ! t) a b c d
                                   + outer4 (rjk ! t) (rjk ! t) (rik ! t) (rik ! t) a b c d)
               + d33theta_t ! t * outer4 (rjk ! t) (rjk ! t) (rjk ! t) (rjk ! t) a b c d))
       + (\<Sum>t\<leftarrow>[0..<length ts].
            d12phi_p ! (ij_t ts ! t) *
              (2 * d1theta_t ! t * outer4 (rij ! t) (rij ! t) (rij ! t) (rij ! t) a b c d
               + d2theta_t ! t * (outer4 (rij ! t) (rij ! t) (rik ! t) (rik ! t) a b c d
                                  + outer4 (rik ! t) (rik ! t) (rij ! t) (rij ! t) a b c d)
               + d3theta_t ! t * (outer4 (rij ! t) (rij ! t) (rjk ! t) (rjk ! t) a b c d
                                  + outer4 (rjk ! t) (rjk ! t) (rij ! t) (rij ! t) a b c d)))
       + (\<Sum>p\<leftarrow>[0..<length ps].
            d22phi_p ! p * (tmpij_pcc ! p) a b * (tmpij_pcc ! p) c d))"

text \<open>
  \<^verbatim>\<open>get_born_elastic_constants\<close>.  The range tests stand at lines 475 and 486; the
  result is \<^verbatim>\<open>2 * C_abab / atoms.get_volume()\<close>.
\<close>

definition get_born_elastic_constants ::
  "collaborators \<Rightarrow> manybody \<Rightarrow> ase_atoms \<Rightarrow> error + tensor4"
where
  "get_born_elastic_constants E self0 a =
     (let self = self0\<lparr>atoms := Some (stored_atoms self0 a)\<rparr>;
          t_n = map (atom_type self) (numbers a)
      in bind_err (get_cutoff self a) (\<lambda>cutoff'.
         case neighbour_list E a cutoff' of
           None \<Rightarrow> Inl NeighbourListError
         | Some ps \<Rightarrow>
            (let nb_atoms = len_atoms (stored_atoms self0 a);
                 nb_pairs = length ps;
                 first_n = first_neighbours E nb_atoms (i_p ps);
                 ts = triplet_list E first_n
             in if \<not> (in_range nb_pairs (ij_t ts) \<and> in_range nb_pairs (ik_t ts))
                then Inl IndexError
                else if \<not> (in_range (length t_n) (i_p ps) \<and> in_range (length t_n) (j_p ps))
                then Inl IndexError
                else
                  (let theta_t = theta_family self (theta self) ps ts t_n
                   in bind_err (bincount (ij_t ts) theta_t nb_pairs) (\<lambda>xi_p.
                      bind_err (mabincount_cc (ij_t ts) (born_blocks self ps ts t_n) nb_pairs)
                        (\<lambda>tmpij_pcc.
                          Inr (\<lambda>a' b c d.
                            2 * born_C_abab self ps ts t_n xi_p tmpij_pcc a' b c d
                              / volume a)))))))"

section \<open>\<^verbatim>\<open>get_non_affine_contribution_to_elastic_constants\<close>\<close>

text \<open>
  The method works on \<^verbatim>\<open>calc = atoms.get_calculator()\<close>, whatever calculator is
  attached to the configuration: its two methods are parameters.  The non-affine forces
  are an array of shape \<open>(nat, 3, 3, 3)\<close>, here one function of three indices per atom;
  \<open>naf_row\<close> is a row of its reshape to \<open>(3 nat, 3, 3)\<close>.  The sparse Hessian is of
  an arbitrary type \<open>'h\<close>.  \<^verbatim>\<open>scipy.sparse.linalg.cg\<close> is a parameter returning the
  solution and the integer \<^verbatim>\<open>info\<close>.
\<close>

type_synonym naforces = "(nat \<Rightarrow> nat \<Rightarrow> nat \<Rightarrow> real) list"

record 'h attached_calc =
  calc_get_hessian :: "ase_atoms \<Rightarrow> string \<Rightarrow> error + 'h"
  calc_get_non_affine_forces :: "ase_atoms \<Rightarrow> error + naforces"

definition naf_row :: "naforces \<Rightarrow> nat \<Rightarrow> nat \<Rightarrow> nat \<Rightarrow> real" where
  "naf_row naf n a b = (naf ! (n div 3)) (n mod 3) a b"

definition cg_message :: string where
  "cg_message = '' info > 0: CG tolerance not achieved, info < 0: Exceeded number of iterations.''"

text \<open>The right-hand side \<^verbatim>\<open>naforces_icab[:, :, i, j].flatten()\<close> of line 632.\<close>

definition cg_rhs :: "naforces \<Rightarrow> nat \<Rightarrow> nat \<Rightarrow> real list" where
  "cg_rhs naf i j = map (\<lambda>n. naf_row naf n i j) [0..<3 * length naf]"

text \<open>
  Lines 630--636: the nine solves, in the order of the two nested loops.  \<open>D\<close> is
  \<open>D_iab\<close>, one column per pair of strain indices.  The second component of the result
  is what the loop returns or raises; the first is the list of index pairs for which
  the solver has been called, in call order.
\<close>

fun cg_loop ::
  "('h \<Rightarrow> real list \<Rightarrow> real \<Rightarrow> real list \<times> int) \<Rightarrow> 'h \<Rightarrow> naforces \<Rightarrow> nat \<Rightarrow> real \<Rightarrow>
   (nat \<times> nat) list \<Rightarrow> (nat \<Rightarrow> nat \<Rightarrow> real list) \<Rightarrow> (nat \<times> nat) list \<Rightarrow>
   (nat \<times> nat) list \<times> (error + (nat \<Rightarrow> nat \<Rightarrow> real list))"
where
  "cg_loop cg H naf nat' tol [] D calls = (calls, Inr D)"
| "cg_loop cg H naf nat' tol ((i, j) # rest) D calls =
     (case cg H (cg_rhs naf i j) tol of
        (x, info) \<Rightarrow>
          if info \<noteq> 0 then (calls @ [(i, j)], Inl (RuntimeError cg_message))
          else if length x = 3 * nat'
          then cg_loop cg H naf nat' tol rest (D(i := (D i)(j := x))) (calls @ [(i, j)])
          else if length x = 1
          then cg_loop cg H naf nat' tol rest
                 (D(i := (D i)(j := replicate (3 * nat') (x ! 0)))) (calls @ [(i, j)])
          else (calls @ [(i, j)], Inl ValueError))"

definition strain_index_pairs :: "(nat \<times> nat) list" where
  "strain_index_pairs = concat (map (\<lambda>i. map (\<lambda>j. (i, j)) [0..<3]) [0..<3])"

text \<open>Line 641: the mean over the four index swaps.\<close>

definition symmetrize :: "tensor4 \<Rightarrow> tensor4" where
  "symmetrize C a b c d = (C a b c d + C b a c d + C a b d c + C b a d c) / 4"

text \<open>
  Lines 620--623, the path with given eigenvalues and eigenvectors.  The transposed
  eigenvector matrix is reshaped to rows of \<open>3 nat\<close> entries, each row is contracted
  with the non-affine forces and divided by the square root of its eigenvalue (numpy
  broadcasts when one of the two has a single entry).
\<close>

definition eigen_C_abab ::
  "naforces \<Rightarrow> nat \<Rightarrow> real list \<Rightarrow> real list list \<Rightarrow> error + tensor4"
where
  "eigen_C_abab naf nat' eigenvalues eigenvectors =
     (let flat = concat (transpose eigenvectors)
      in if length naf \<noteq> nat' \<or> 3 * nat' = 0 \<or> length flat mod (3 * nat') \<noteq> 0
         then Inl ValueError
         else
           (let modes = map (\<lambda>m. take (3 * nat') (drop (m * (3 * nat')) flat))
                          [0..<length flat div (3 * nat')];
                M = length modes;
                L = length eigenvalues
            in if \<not> (M = L \<or> L = 1 \<or> M = 1) then Inl ValueError
               else
                 (let K = (if L = 1 then M else L);
                      G_icc = (\<lambda>m a b. \<Sum>n\<leftarrow>[0..<3 * nat'].
                                 (modes ! (if M = 1 then 0 else m)) ! n * naf_row naf n a b
                                   / sqrt (eigenvalues ! (if L = 1 then 0 else m)))
                  in Inr (\<lambda>a b c d. \<Sum>m\<leftarrow>[0..<K]. G_icc m a b * G_icc m c d))))"

text \<open>
  \<^verbatim>\<open>get_non_affine_contribution_to_elastic_constants\<close>.  In the second path the Hessian
  is requested first, then the non-affine forces; the reshape of line 638 needs one
  entry of the non-affine forces per atom.
\<close>

definition get_non_affine_contribution_to_elastic_constants ::
  "('h \<Rightarrow> real list \<Rightarrow> real \<Rightarrow> real list \<times> int) \<Rightarrow> 'h attached_calc \<Rightarrow> ase_atoms \<Rightarrow>
   real list option \<Rightarrow> real list list option \<Rightarrow> real \<Rightarrow> error + tensor4"
where
  "get_non_affine_contribution_to_elastic_constants cg calc a eigenvalues eigenvectors tol =
     (let nat' = len_atoms a
      in bind_err
           (if eigenvalues \<noteq> None \<and> eigenvectors \<noteq> None
            then bind_err (calc_get_non_affine_forces calc a) (\<lambda>naforces_icab.
                   eigen_C_abab naforces_icab nat' (the eigenvalues) (the eigenvectors))
            else bind_err (calc_get_hessian calc a ''sparse'') (\<lambda>H_nn.
                 bind_err (calc_get_non_affine_forces calc a) (\<lambda>naforces_icab.
                 bind_err (snd (cg_loop cg H_nn naforces_icab nat' tol strain_index_pairs
                                  (\<lambda>i j. replicate (3 * nat') 0) [])) (\<lambda>D_iab.
                   if length naforces_icab \<noteq> nat' then Inl ValueError
                   else Inr (\<lambda>a' b c d. \<Sum>n\<leftarrow>[0..<3 * nat'].
                               naf_row naforces_icab n a' b * (D_iab c d ! n))))))
           (\<lambda>C_abab.
              Inr (\<lambda>a' b c d. - (symmetrize C_abab a' b c d) / volume a)))"

section \<open>The methods that read attributes the constructor does not store\<close>

text \<open>
  \<^verbatim>\<open>get_second_derivative\<close>, lines 332--365.  The four optional arrays of the
  neighbour list are one optional argument.  The products of lines 350--351 need one
  row of \<^verbatim>\<open>drda_pc\<close> and \<^verbatim>\<open>drdb_pc\<close> per pair (or a single row, which numpy
  broadcasts).  Line 365 reads \<^verbatim>\<open>self.G\<close>: the object has the attributes of the
  record \<open>manybody\<close> and no other, so the lookup raises \<^verbatim>\<open>AttributeError\<close>, before
  the arguments of the call are evaluated.  Lines 366--408 are never reached.
\<close>

definition get_second_derivative ::
  "collaborators \<Rightarrow> manybody \<Rightarrow> ase_atoms \<Rightarrow> vec3 list \<Rightarrow> vec3 list \<Rightarrow> nl_pair list option \<Rightarrow>
   error + real"
where
  "get_second_derivative E self0 a drda_pc drdb_pc nl =
     (let self = self0\<lparr>atoms := Some (stored_atoms self0 a)\<rparr>;
          t_n = map (atom_type self) (numbers a)
      in bind_err (get_cutoff self a) (\<lambda>cutoff'.
         bind_err
           (case nl of
              Some ps \<Rightarrow> Inr ps
            | None \<Rightarrow> (case neighbour_list E a cutoff' of
                         None \<Rightarrow> Inl NeighbourListError
                       | Some ps \<Rightarrow> Inr ps))
           (\<lambda>ps.
              let nb_atoms = len_atoms (stored_atoms self0 a);
                  nb_pairs = length ps;
                  normals = n_pc ps
              in if \<not> (length drda_pc = nb_pairs \<or> length drda_pc = 1) then Inl ValueError
                 else if \<not> (length drdb_pc = nb_pairs \<or> length drdb_pc = 1) then Inl ValueError
                 else
                   (let first_n = first_neighbours E nb_atoms (i_p ps);
                        ts = triplet_list_jk E first_n (r_p ps) cutoff' (i_p ps) (j_p ps)
                    in if \<not> (in_range (length t_n) (i_p ps) \<and> in_range (length t_n) (j_p ps))
                       then Inl IndexError
                       else if \<not> (in_range nb_pairs (map fst ts) \<and>
                                    in_range nb_pairs (map (fst \<circ> snd) ts))
                       then Inl IndexError
                       else Inl (AttributeError ''G'')))))"

text \<open>
  \<^verbatim>\<open>get_non_affine_forces\<close>, lines 646--675: the same preparation, and the same
  lookup of \<^verbatim>\<open>self.G\<close> at line 675.  Lines 676--748 are never reached.
\<close>

definition get_non_affine_forces ::
  "collaborators \<Rightarrow> manybody \<Rightarrow> ase_atoms \<Rightarrow> error + naforces"
where
  "get_non_affine_forces E self0 a =
     (let self = self0\<lparr>atoms := Some (stored_atoms self0 a)\<rparr>;
          t_n = map (atom_type self) (numbers a)
      in bind_err (get_cutoff self a) (\<lambda>cutoff'.
         case neighbour_list E a cutoff' of
           None \<Rightarrow> Inl NeighbourListError
         | Some ps \<Rightarrow>
            (let nb_atoms = len_atoms (stored_atoms self0 a);
                 nb_pairs = length ps;
                 normals = n_pc ps;
                 first_n = first_neighbours E nb_atoms (i_p ps);
                 ts = triplet_list_jk E first_n (r_p ps) cutoff' (i_p ps) (j_p ps)
             in if \<not> (in_range (length t_n) (i_p ps) \<and> in_range (length t_n) (j_p ps))
                then Inl IndexError
                else if \<not> (in_range nb_pairs (map fst ts) \<and>
                             in_range nb_pairs (map (fst \<circ> snd) ts))
                then Inl IndexError
                else Inl (AttributeError ''G''))))"

text \<open>
  \<^verbatim>\<open>get_non_affine_forces_from_second_derivative\<close>.  The perturbation fields of lines
  433--439: \<open>drdb_pc\<close> has \<open>1\<close> in component \<open>cm\<close> of the pairs owned by atom \<open>m\<close>
  and \<open>-1\<close> in those whose second atom is \<open>m\<close> (written last); \<open>drda_pc\<close> has
  component \<open>beta\<close> of the distance vector in component \<open>alpha\<close>.
\<close>

definition vset :: "vec3 \<Rightarrow> nat \<Rightarrow> real \<Rightarrow> vec3" where
  "vset v k s =
     (if k = 0 then Vec3 s (vy v) (vz v)
      else if k = 1 then Vec3 (vx v) s (vz v)
      else Vec3 (vx v) (vy v) s)"

definition drdb_pc :: "nl_pair list \<Rightarrow> nat \<Rightarrow> nat \<Rightarrow> vec3 list" where
  "drdb_pc ps m cm =
     map (\<lambda>p. let v1 = (if p_i p = m then vset 0 cm 1 else 0)
               in if p_j p = m then vset v1 cm (- 1) else v1) ps"

definition drda_pc :: "nl_pair list \<Rightarrow> nat \<Rightarrow> nat \<Rightarrow> vec3 list" where
  "drda_pc ps alpha beta = map (\<lambda>p. vset 0 alpha (vcomp (p_D p) beta)) ps"

fun naf_loop ::
  "collaborators \<Rightarrow> manybody \<Rightarrow> ase_atoms \<Rightarrow> nl_pair list \<Rightarrow> (nat \<times> nat \<times> nat \<times> nat) list \<Rightarrow>
   (nat \<Rightarrow> nat \<Rightarrow> nat \<Rightarrow> nat \<Rightarrow> real) \<Rightarrow> error + (nat \<Rightarrow> nat \<Rightarrow> nat \<Rightarrow> nat \<Rightarrow> real)"
where
  "naf_loop E self a ps [] naF = Inr naF"
| "naf_loop E self a ps ((m, cm, alpha, beta) # rest) naF =
     bind_err (get_second_derivative E self a (drda_pc ps alpha beta) (drdb_pc ps m cm) (Some ps))
       (\<lambda>v. naf_loop E self a ps rest
              (\<lambda>m' cm' alpha' beta'.
                 if m' = m \<and> cm' = cm \<and> alpha' = alpha \<and> beta' = beta then v
                 else naF m' cm' alpha' beta'))"

definition get_non_affine_forces_from_second_derivative ::
  "collaborators \<Rightarrow> manybody \<Rightarrow> ase_atoms \<Rightarrow> error + (nat \<Rightarrow> nat \<Rightarrow> nat \<Rightarrow> nat \<Rightarrow> real)"
where
  "get_non_affine_forces_from_second_derivative E self0 a =
     (let self = self0\<lparr>atoms := Some (stored_atoms self0 a)\<rparr>
      in bind_err (get_cutoff self a) (\<lambda>cutoff'.
         case neighbour_list E a (2 * cutoff') of
           None \<Rightarrow> Inl NeighbourListError
         | Some ps \<Rightarrow>
            (let nb_atoms = len_atoms (stored_atoms self0 a);
                 nb_pairs = length ps
             in bind_err
                  (naf_loop E self a ps
                     (concat (map (\<lambda>m. concat (map (\<lambda>cm. concat (map (\<lambda>alpha.
                        map (\<lambda>beta. (m, cm, alpha, beta)) [0..<3]) [0..<3])) [0..<3]))
                        [0..<nb_atoms]))
                     (\<lambda>m cm alpha beta. 0))
                  (\<lambda>naF_ncab. Inr (\<lambda>m cm alpha beta. naF_ncab m cm alpha beta / 2)))))"

section \<open>The scatter rule, in the words of the specification\<close>

text \<open>
  The specification requires every force contribution of a bond to be added to the
  owner atom with sign \<open>+\<close> and to the partner atom with sign \<open>-\<close>.  \<open>bond_scatter\<close>
  is what atom \<open>n\<close> receives in this way from the contributions \<open>f\<close> of bonds with
  the given owners and partners.
\<close>

definition scatter_spec :: "nat list \<Rightarrow> vec3 list \<Rightarrow> nat \<Rightarrow> vec3" where
  "scatter_spec keys f n = (\<Sum>k\<leftarrow>[0..<length f]. if keys ! k = n then f ! k else 0)"

definition bond_scatter :: "nat list \<Rightarrow> nat list \<Rightarrow> vec3 list \<Rightarrow> nat \<Rightarrow> vec3" where
  "bond_scatter owner partner f n = scatter_spec owner f n - scatter_spec partner f n"

section \<open>The coordination, in the words of the specification\<close>

text \<open>
  The specification defines the coordination of a pair \<open>p\<close> as the sum of \<open>theta\<close> over
  the triplets whose \<open>ij\<close> side is \<open>p\<close>; a pair with no such triplet gets 0.
\<close>

definition xi_spec :: "(nat \<times> nat) list \<Rightarrow> real list \<Rightarrow> nat \<Rightarrow> real" where
  "xi_spec ts theta_t p = (\<Sum>t\<leftarrow>[0..<length ts]. if fst (ts ! t) = p then theta_t ! t else 0)"

section \<open>A concrete configuration\<close>

text \<open>
  Three atoms of one species: atom 0 at the origin, atom 1 at \<open>(1, 0, 0)\<close> and atom 2
  at \<open>(0, 3/5, 4/5)\<close>, with a cutoff of \<open>5/4\<close>: atom 0 has the neighbours 1 and 2,
  which are out of each other's range.  The
  neighbour list has four rows and the triplet list the two ordered combinations of
  the rows owned by atom 0.  The potential is \<open>phi(R, r, xi) = R (1 + xi)\<close> with
  \<open>theta = Rij Rik + Rjk\<close>, and their partial derivatives.
\<close>

definition ex_pairs :: "nl_pair list" where
  "ex_pairs =
     [\<lparr> p_i = 0, p_j = 1, p_d = 1, p_D = Vec3 1 0 0 \<rparr>,
      \<lparr> p_i = 0, p_j = 2, p_d = 1, p_D = Vec3 0 (3 / 5) (4 / 5) \<rparr>,
      \<lparr> p_i = 1, p_j = 0, p_d = 1, p_D = Vec3 (- 1) 0 0 \<rparr>,
      \<lparr> p_i = 2, p_j = 0, p_d = 1, p_D = Vec3 0 (- (3 / 5)) (- (4 / 5)) \<rparr>]"

definition ex_env :: collaborators where
  "ex_env =
     \<lparr> neighbour_list = (\<lambda>a c. Some ex_pairs),
       first_neighbours = (\<lambda>n i. [0, 2, 3, 4]),
       triplet_list = (\<lambda>first_n. [(0, 1), (1, 0)]),
       triplet_list_jk = (\<lambda>first_n r c i j. []),
       find_indices_of_reversed_pairs = (\<lambda>i j r. [2, 3, 0, 1]) \<rparr>"

definition ex_atoms :: ase_atoms where
  "ex_atoms =
     \<lparr> numbers = [14, 14, 14],
       positions = [[0, 0, 0], [1, 0, 0], [0, 3 / 5, 4 / 5]],
       masses = [28, 28, 28],
       volume = 8 \<rparr>"

definition ex_calc :: manybody where
  "ex_calc =
     Manybody_init (\<lambda>z. 0) (\<lambda>ti tj. 0)
       (\<lambda>R r xi ti tij. R * (1 + xi))
       (\<lambda>R r xi ti tij. 1 + xi)
       (\<lambda>R r xi ti tij. R)
       (\<lambda>R r xi ti tij. 0)
       (\<lambda>R r xi ti tij. 1)
       (\<lambda>R r xi ti tij. 0)
       (\<lambda>Rij rij Rik rik Rjk rjk ti tij tik. Rij * Rik + Rjk)
       (\<lambda>Rij rij Rik rik Rjk rjk ti tij tik. Rik)
       (\<lambda>Rij rij Rik rik Rjk rjk ti tij tik. Rij)
       (\<lambda>Rij rij Rik rik Rjk rjk ti tij tik. 1)
       (\<lambda>Rij rij Rik rik Rjk rjk ti tij tik. 0)
       (\<lambda>Rij rij Rik rik Rjk rjk ti tij tik. 1)
       (\<lambda>Rij rij Rik rik Rjk rjk ti tij tik. 0)
       (\<lambda>Rij rij Rik rik Rjk rjk ti tij tik. 0)
       (\<lambda>Rij rij Rik rik Rjk rjk ti tij tik. 0)
       (\<lambda>Rij rij Rik rik Rjk rjk ti tij tik. 0)
       (Scalar (5 / 4))"

text \<open>What \<^verbatim>\<open>calculate\<close> stores for this configuration.\<close>

definition ex_results :: calc_results where
  "ex_results =
     \<lparr> free_energy = 5, energy = 5,
       stress = [9 / 8, 81 / 200, 18 / 25, 27 / 50, - (1 / 5), - (3 / 20)],
       forces = [Vec3 7 (21 / 5) (28 / 5), Vec3 (- 9) (6 / 5) (8 / 5),
                 Vec3 2 (- (27 / 5)) (- (36 / 5))] \<rparr>"

text \<open>
  Two atoms of one species at distance 1 along \<open>x\<close>, within the cutoff, and nothing
  else in range: two mirrored rows in the neighbour list and no triplet.
\<close>

definition ex2_pairs :: "nl_pair list" where
  "ex2_pairs =
     [\<lparr> p_i = 0, p_j = 1, p_d = 1, p_D = Vec3 1 0 0 \<rparr>,
      \<lparr> p_i = 1, p_j = 0, p_d = 1, p_D = Vec3 (- 1) 0 0 \<rparr>]"

definition ex2_env :: collaborators where
  "ex2_env =
     \<lparr> neighbour_list = (\<lambda>a c. Some ex2_pairs),
       first_neighbours = (\<lambda>n i. [0, 1, 2]),
       triplet_list = (\<lambda>first_n. []),
       triplet_list_jk = (\<lambda>first_n r c i j. []),
       find_indices_of_reversed_pairs = (\<lambda>i j r. [1, 0]) \<rparr>"

definition ex2_atoms :: ase_atoms where
  "ex2_atoms =
     \<lparr> numbers = [14, 14],
       positions = [[0, 0, 0], [1, 0, 0]],
       masses = [28, 28],
       volume = 8 \<rparr>"

text \<open>
  A single atom with an attached calculator that delivers a Hessian (here without
  content) and non-affine forces \<open>3 a + b\<close> for the strain indices \<open>(a, b)\<close>, and four
  solvers: one that converges (it returns the right-hand side), one that reports a
  positive \<^verbatim>\<open>info\<close>, one that reports a negative \<^verbatim>\<open>info\<close>, and one that converges
  except on the right-hand side of the strain indices \<open>(1, 2)\<close>.
\<close>

definition ex1_atoms :: ase_atoms where
  "ex1_atoms = \<lparr> numbers = [14], positions = [[0, 0, 0]], masses = [28], volume = 8 \<rparr>"

definition ex_attached :: "unit attached_calc" where
  "ex_attached =
     \<lparr> calc_get_hessian = (\<lambda>a format. Inr ()),
       calc_get_non_affine_forces = (\<lambda>a. Inr [\<lambda>c a b. 3 * real a + real b]) \<rparr>"


definition cg_info_positive :: "unit \<Rightarrow> real list \<Rightarrow> real \<Rightarrow> real list \<times> int" where
  "cg_info_positive H b tol = (b, 1)"

definition cg_info_negative :: "unit \<Rightarrow> real list \<Rightarrow> real \<Rightarrow> real list \<times> int" where
  "cg_info_negative H b tol = (b, - 1)"

definition cg_fails_late :: "unit \<Rightarrow> real list \<Rightarrow> real \<Rightarrow> real list \<times> int" where
  "cg_fails_late H b tol = (b, if hd b = 5 then 1 else 0)"

text \<open>
  The three atoms of the first configuration with positions of two components, and
  blocks per pair for the diagonal loop of the Hessian: all entries 1, for the two
  pairs of the two-atom neighbour list.
\<close>

definition ex_atoms_2d :: ase_atoms where
  "ex_atoms_2d = ex_atoms\<lparr>positions := [[0, 0], [1, 0], [0, 1]]\<rparr>"

definition has_dimension :: "nat \<Rightarrow> ase_atoms \<Rightarrow> bool" where
  "has_dimension d a = list_all (\<lambda>r. length r = d) (positions a)"

definition ex_blocks :: "block list" where
  "ex_blocks = [\<lambda>x y. 1, \<lambda>x y. 1]"

section \<open>Scatter-add and array lemmas\<close>

lemma bind_err_Inr [simp]: "bind_err (Inr v) f = f v"
  by (simp add: bind_err_def)

lemma bind_err_Inl [simp]: "bind_err (Inl e) f = Inl e"
  by (simp add: bind_err_def)

lemma length_scatter_add [simp]: "length (scatter_add ks ws acc) = length acc"
  by (induction ks ws acc rule: scatter_add.induct) simp_all

lemma sum_list_update_add:
  fixes xs :: "real list"
  shows "k < length xs \<Longrightarrow> sum_list (xs[k := xs ! k + w]) = sum_list xs + w"
proof (induction xs arbitrary: k)
  case (Cons a xs)
  then show ?case by (cases k) simp_all
qed simp

lemma sum_list_scatter_add:
  "length ks = length ws \<Longrightarrow> list_all (\<lambda>k. k < length acc) ks \<Longrightarrow>
   sum_list (scatter_add ks ws acc) = sum_list acc + sum_list ws"
proof (induction ks ws acc rule: scatter_add.induct)
  case (1 k ks w ws acc)
  then show ?case by (simp add: sum_list_update_add)
qed simp_all

lemma nth_scatter_add:
  "p < length acc \<Longrightarrow>
   scatter_add ks ws acc ! p = acc ! p + (\<Sum>(k, w)\<leftarrow>zip ks ws. if k = p then w else 0)"
proof (induction ks ws acc rule: scatter_add.induct)
  case (1 k ks w ws acc)
  then show ?case by (cases "k < length acc") (auto simp: nth_list_update)
qed simp_all

lemma nb_bins_in_range: "in_range n x \<Longrightarrow> nb_bins x n = n"
  unfolding nb_bins_def in_range_def
  by (induction x arbitrary: n) (simp_all add: max_def)

lemma nb_bins_ge: "n \<le> nb_bins x n"
  unfolding nb_bins_def
proof (induction x arbitrary: n)
  case (Cons k x)
  have "n \<le> max (Suc k) n" by simp
  also have "\<dots> \<le> fold (\<lambda>k m. max (Suc k) m) x (max (Suc k) n)" by (rule Cons.IH)
  finally show ?case by simp
qed simp

lemma bincount_ok:
  "length w = length x \<Longrightarrow> in_range n x \<Longrightarrow>
   bincount x w n = Inr (scatter_add x w (replicate n 0))"
  by (simp add: bincount_def nb_bins_in_range)

lemma mabincount_ok:
  "length w = length x \<Longrightarrow> in_range n x \<Longrightarrow>
   mabincount x w n =
     Inr (map (\<lambda>k. Vec3 (scatter_add x (map vx w) (replicate n 0) ! k)
                        (scatter_add x (map vy w) (replicate n 0) ! k)
                        (scatter_add x (map vz w) (replicate n 0) ! k)) [0..<n])"
  by (simp add: mabincount_def bincount_ok)

lemma vx_sum_list: "vx (sum_list vs) = sum_list (map vx vs)"
  by (induction vs) (simp_all add: zero_vec3_def plus_vec3_def)

lemma vy_sum_list: "vy (sum_list vs) = sum_list (map vy vs)"
  by (induction vs) (simp_all add: zero_vec3_def plus_vec3_def)

lemma vz_sum_list: "vz (sum_list vs) = sum_list (map vz vs)"
  by (induction vs) (simp_all add: zero_vec3_def plus_vec3_def)

lemma map_nth_upt: "length xs = n \<Longrightarrow> map (\<lambda>k. xs ! k) [0..<n] = xs"
  by (auto simp: list_eq_iff_nth_eq)

lemma sum_list_mabincount:
  assumes "length w = length x" "in_range n x" "mabincount x w n = Inr r"
  shows "sum_list r = sum_list w" and "length r = n"
proof -
  let ?bx = "scatter_add x (map vx w) (replicate n 0)"
  let ?by = "scatter_add x (map vy w) (replicate n 0)"
  let ?bz = "scatter_add x (map vz w) (replicate n 0)"
  have r: "r = map (\<lambda>k. Vec3 (?bx ! k) (?by ! k) (?bz ! k)) [0..<n]"
    using assms by (simp add: mabincount_ok)
  have rng: "list_all (\<lambda>k. k < length (replicate n (0::real))) x"
    using assms(2) by (simp add: in_range_def)
  have "vx (sum_list r) = sum_list ?bx"
    unfolding vx_sum_list r by (simp add: comp_def map_nth_upt)
  also have "\<dots> = sum_list (map vx w)"
    using assms(1) rng by (simp add: sum_list_scatter_add sum_list_replicate)
  finally have x: "vx (sum_list r) = vx (sum_list w)" by (simp add: vx_sum_list)
  have "vy (sum_list r) = sum_list ?by"
    unfolding vy_sum_list r by (simp add: comp_def map_nth_upt)
  also have "\<dots> = sum_list (map vy w)"
    using assms(1) rng by (simp add: sum_list_scatter_add sum_list_replicate)
  finally have y: "vy (sum_list r) = vy (sum_list w)" by (simp add: vy_sum_list)
  have "vz (sum_list r) = sum_list ?bz"
    unfolding vz_sum_list r by (simp add: comp_def map_nth_upt)
  also have "\<dots> = sum_list (map vz w)"
    using assms(1) rng by (simp add: sum_list_scatter_add sum_list_replicate)
  finally have z: "vz (sum_list r) = vz (sum_list w)" by (simp add: vz_sum_list)
  show "sum_list r = sum_list w" using x y z by (simp add: vec3.expand)
  show "length r = n" by (simp add: r)
qed

lemma sum_list_map2_add:
  fixes a b :: "'a::ab_group_add list"
  shows "length a = length b \<Longrightarrow> sum_list (map2 (+) a b) = sum_list a + sum_list b"
  by (induction a b rule: list_induct2) (simp_all add: algebra_simps)

lemma sum_list_map2_diff:
  fixes a b :: "'a::ab_group_add list"
  shows "length a = length b \<Longrightarrow> sum_list (map2 (-) a b) = sum_list a - sum_list b"
  by (induction a b rule: list_induct2) (simp_all add: algebra_simps)


lemma in_range_gather:
  "in_range (length xs) idx \<Longrightarrow> in_range n xs \<Longrightarrow> in_range n (gather xs idx)"
  by (auto simp: in_range_def gather_def list_all_iff)

lemma length_gather [simp]: "length (gather xs idx) = length idx"
  by (simp add: gather_def)

lemma length_ij_t [simp]: "length (ij_t ts) = length ts"
  by (simp add: ij_t_def)

lemma length_ik_t [simp]: "length (ik_t ts) = length ts"
  by (simp add: ik_t_def)

lemma length_i_p [simp]: "length (i_p ps) = length ps"
  by (simp add: i_p_def)

lemma length_j_p [simp]: "length (j_p ps) = length ps"
  by (simp add: j_p_def)

lemma length_r_p [simp]: "length (r_p ps) = length ps"
  by (simp add: r_p_def)

lemma length_r_pc [simp]: "length (r_pc ps) = length ps"
  by (simp add: r_pc_def)

lemma length_theta_family [simp]: "length (theta_family self f ps ts t_n) = length ts"
  by (simp add: theta_family_def vectorize9_def Let_def)

lemma length_phi_family [simp]: "length (phi_family self f ps xi t_n) = length ps"
  by (simp add: phi_family_def vectorize5_def Let_def)

lemma length_fij_pc: "length d = length ps \<Longrightarrow> length (fij_pc d ps) = length ps"
  by (simp add: fij_pc_def)

lemma length_fij_tc: "length th = length ts \<Longrightarrow> length (fij_tc d th ps ts) = length ts"
  by (simp add: fij_tc_def)

lemma length_fik_tc: "length th = length ts \<Longrightarrow> length (fik_tc d th ps ts) = length ts"
  by (simp add: fik_tc_def)

lemma length_fjk_tc: "length th = length ts \<Longrightarrow> length (fjk_tc d th ps ts) = length ts"
  by (simp add: fjk_tc_def)

lemma f_nc_sum:
  assumes lp: "length fij_p = length ps"
    and lt: "length fij_t = length ts" "length fik_t = length ts" "length fjk_t = length ts"
    and rp: "in_range n (i_p ps)" "in_range n (j_p ps)"
    and rt: "in_range (length ps) (ij_t ts)" "in_range (length ps) (ik_t ts)"
  shows "\<exists>r. f_nc n ps ts fij_p fij_t fik_t fjk_t = Inr r \<and> length r = n \<and> sum_list r = 0"
proof -
  have g: "in_range n (gather (i_p ps) (ij_t ts))" "in_range n (gather (j_p ps) (ij_t ts))"
    "in_range n (gather (i_p ps) (ik_t ts))" "in_range n (gather (j_p ps) (ik_t ts))"
    using rp rt by (simp_all add: in_range_gather)
  obtain a1 where a1: "mabincount (i_p ps) fij_p n = Inr a1"
    using lp rp by (simp add: mabincount_ok)
  obtain a2 where a2: "mabincount (j_p ps) fij_p n = Inr a2"
    using lp rp by (simp add: mabincount_ok)
  obtain b1 where b1: "mabincount (gather (i_p ps) (ij_t ts)) fij_t n = Inr b1"
    using lt g by (simp add: mabincount_ok)
  obtain b2 where b2: "mabincount (gather (j_p ps) (ij_t ts)) fij_t n = Inr b2"
    using lt g by (simp add: mabincount_ok)
  obtain b3 where b3: "mabincount (gather (i_p ps) (ik_t ts)) fik_t n = Inr b3"
    using lt g by (simp add: mabincount_ok)
  obtain b4 where b4: "mabincount (gather (j_p ps) (ik_t ts)) fik_t n = Inr b4"
    using lt g by (simp add: mabincount_ok)
  obtain b5 where b5: "mabincount (gather (j_p ps) (ij_t ts)) fjk_t n = Inr b5"
    using lt g by (simp add: mabincount_ok)
  obtain b6 where b6: "mabincount (gather (j_p ps) (ik_t ts)) fjk_t n = Inr b6"
    using lt g by (simp add: mabincount_ok)
  note s1 = sum_list_mabincount [OF _ rp(1) a1] sum_list_mabincount [OF _ rp(2) a2]
  note s2 = sum_list_mabincount [OF _ g(1) b1] sum_list_mabincount [OF _ g(2) b2]
    sum_list_mabincount [OF _ g(3) b3] sum_list_mabincount [OF _ g(4) b4]
    sum_list_mabincount [OF _ g(2) b5] sum_list_mabincount [OF _ g(4) b6]
  have len: "length a1 = n" "length a2 = n" "length b1 = n" "length b2 = n"
    "length b3 = n" "length b4 = n" "length b5 = n" "length b6 = n"
    using s1 s2 lp lt by simp_all
  have sums: "sum_list a1 = sum_list fij_p" "sum_list a2 = sum_list fij_p"
    "sum_list b1 = sum_list fij_t" "sum_list b2 = sum_list fij_t"
    "sum_list b3 = sum_list fik_t" "sum_list b4 = sum_list fik_t"
    "sum_list b5 = sum_list fjk_t" "sum_list b6 = sum_list fjk_t"
    using s1 s2 lp lt by simp_all
  let ?r = "map2 (+) (map2 (-) a1 a2)
             (map2 (-) (map2 (+) (map2 (-) (map2 (+) (map2 (-) b1 b2) b3) b4) b5) b6)"
  have "f_nc n ps ts fij_p fij_t fik_t fjk_t = Inr ?r"
    by (simp add: f_nc_def a1 a2 b1 b2 b3 b4 b5 b6)
  moreover have "length ?r = n" by (simp add: len)
  moreover have "sum_list ?r = 0"
    by (simp add: sum_list_map2_add sum_list_map2_diff len sums)
  ultimately show ?thesis by blast
qed


lemma get_cutoff_atoms_upd [simp]: "get_cutoff (self\<lparr>atoms := x\<rparr>) a = get_cutoff self a"
  by (simp add: get_cutoff_def Let_def split: cutoff_spec.splits)

lemma theta_family_atoms_upd [simp]:
  "theta_family (self\<lparr>atoms := x\<rparr>) f ps ts t_n = theta_family self f ps ts t_n"
  by (simp add: theta_family_def)

lemma phi_family_atoms_upd [simp]:
  "phi_family (self\<lparr>atoms := x\<rparr>) f ps xi t_n = phi_family self f ps xi t_n"
  by (simp add: phi_family_def)


lemma calculate_eq:
  assumes c: "get_cutoff self a = Inr c"
    and ps: "neighbour_list E a c = Some ps"
    and ts: "ts = triplet_list E (first_neighbours E (len_atoms a) (i_p ps))"
    and tn: "t_n = map (atom_type self) (numbers a)"
    and rt: "in_range (length ps) (ij_t ts)" "in_range (length ps) (ik_t ts)"
    and rp: "in_range (len_atoms a) (i_p ps)" "in_range (len_atoms a) (j_p ps)"
    and xi: "bincount (ij_t ts) (theta_family self (theta self) ps ts t_n) (length ps) = Inr xi_p"
    and d1: "d1phi_p = phi_family self (d1phi self) ps xi_p t_n"
    and d2: "d2phi_p = phi_family self (d2phi self) ps xi_p t_n"
    and fp: "fij_p = fij_pc d1phi_p ps"
    and ft: "fij_t = fij_tc d2phi_p (theta_family self (d1theta self) ps ts t_n) ps ts"
      "fik_t = fik_tc d2phi_p (theta_family self (d2theta self) ps ts t_n) ps ts"
      "fjk_t = fjk_tc d2phi_p (theta_family self (d3theta self) ps ts t_n) ps ts"
    and fo: "f_nc (len_atoms a) ps ts fij_p fij_t fik_t fjk_t = Inr fo"
  shows "calculate E self a =
    Inr (self\<lparr>atoms := Some a, results := Some
      \<lparr> free_energy = (1 / 2) * sum_list (phi_family self (phi self) ps xi_p t_n),
        energy = (1 / 2) * sum_list (phi_family self (phi self) ps xi_p t_n),
        stress = map (\<lambda>v. v / volume a)
          (map2 (+) (virial_pair ps fij_p) (virial_triplet ps ts fij_t fik_t fjk_t)),
        forces = fo \<rparr>\<rparr>)"
proof -
  have rp': "in_range (length (numbers a)) (i_p ps)" "in_range (length (numbers a)) (j_p ps)"
    using rp by (simp_all add: len_atoms_def)
  show ?thesis
    unfolding calculate_def Let_def
    using c ps rt rp' xi fo
    unfolding ts tn d1 d2 fp ft
    by simp
qed

lemma calculate_InrD:
  assumes "calculate E self a = Inr self'"
  shows "\<exists>c ps xi_p fo.
    get_cutoff self a = Inr c \<and> neighbour_list E a c = Some ps \<and>
    in_range (length ps) (ij_t (triplet_list E (first_neighbours E (len_atoms a) (i_p ps)))) \<and>
    in_range (length ps) (ik_t (triplet_list E (first_neighbours E (len_atoms a) (i_p ps)))) \<and>
    in_range (len_atoms a) (i_p ps) \<and> in_range (len_atoms a) (j_p ps) \<and>
    bincount (ij_t (triplet_list E (first_neighbours E (len_atoms a) (i_p ps))))
      (theta_family self (theta self) ps
         (triplet_list E (first_neighbours E (len_atoms a) (i_p ps)))
         (map (atom_type self) (numbers a))) (length ps) = Inr xi_p \<and>
    f_nc (len_atoms a) ps (triplet_list E (first_neighbours E (len_atoms a) (i_p ps)))
      (fij_pc (phi_family self (d1phi self) ps xi_p (map (atom_type self) (numbers a))) ps)
      (fij_tc (phi_family self (d2phi self) ps xi_p (map (atom_type self) (numbers a)))
         (theta_family self (d1theta self) ps
           (triplet_list E (first_neighbours E (len_atoms a) (i_p ps)))
           (map (atom_type self) (numbers a)))
         ps (triplet_list E (first_neighbours E (len_atoms a) (i_p ps))))
      (fik_tc (phi_family self (d2phi self) ps xi_p (map (atom_type self) (numbers a)))
         (theta_family self (d2theta self) ps
           (triplet_list E (first_neighbours E (len_atoms a) (i_p ps)))
           (map (atom_type self) (numbers a)))
         ps (triplet_list E (first_neighbours E (len_atoms a) (i_p ps))))
      (fjk_tc (phi_family self (d2phi self) ps xi_p (map (atom_type self) (numbers a)))
         (theta_family self (d3theta self) ps
           (triplet_list E (first_neighbours E (len_atoms a) (i_p ps)))
           (map (atom_type self) (numbers a)))
         ps (triplet_list E (first_neighbours E (len_atoms a) (i_p ps)))) = Inr fo"
  using assms unfolding calculate_def Let_def
  by (auto simp: bind_err_def len_atoms_def split: sum.splits option.splits if_splits)

section \<open>\<^verbatim>\<open>calculate\<close>: what it returns\<close>

lemma calculate_returns:
  assumes c: "get_cutoff self a = Inr c"
    and ps: "neighbour_list E a c = Some ps"
    and ts: "ts = triplet_list E (first_neighbours E (len_atoms a) (i_p ps))"
    and rt: "in_range (length ps) (ij_t ts)" "in_range (length ps) (ik_t ts)"
    and rp: "in_range (len_atoms a) (i_p ps)" "in_range (len_atoms a) (j_p ps)"
  shows "\<exists>self'. calculate E self a = Inr self'"
proof -
  define t_n where "t_n = map (atom_type self) (numbers a)"
  obtain xi_p where xi:
    "bincount (ij_t ts) (theta_family self (theta self) ps ts t_n) (length ps) = Inr xi_p"
    using rt(1) by (simp add: bincount_ok)
  define d1phi_p where "d1phi_p = phi_family self (d1phi self) ps xi_p t_n"
  define d2phi_p where "d2phi_p = phi_family self (d2phi self) ps xi_p t_n"
  define fij_p where "fij_p = fij_pc d1phi_p ps"
  define fij_t where "fij_t = fij_tc d2phi_p (theta_family self (d1theta self) ps ts t_n) ps ts"
  define fik_t where "fik_t = fik_tc d2phi_p (theta_family self (d2theta self) ps ts t_n) ps ts"
  define fjk_t where "fjk_t = fjk_tc d2phi_p (theta_family self (d3theta self) ps ts t_n) ps ts"
  have "\<exists>r. f_nc (len_atoms a) ps ts fij_p fij_t fik_t fjk_t = Inr r \<and>
      length r = len_atoms a \<and> sum_list r = 0"
    by (rule f_nc_sum)
      (simp_all add: fij_p_def fij_t_def fik_t_def fjk_t_def d1phi_p_def d2phi_p_def
        length_fij_pc length_fij_tc length_fik_tc length_fjk_tc rp rt)
  then obtain fo where fo: "f_nc (len_atoms a) ps ts fij_p fij_t fik_t fjk_t = Inr fo"
    by blast
  show ?thesis
    using calculate_eq [OF c ps ts t_n_def rt rp xi d1phi_p_def d2phi_p_def fij_p_def
        fij_t_def fik_t_def fjk_t_def fo]
    by blast
qed

lemma calculate_InrE:
  assumes "calculate E self a = Inr self'"
  obtains c ps ts t_n xi_p d1phi_p d2phi_p fij_p fij_t fik_t fjk_t fo where
    "get_cutoff self a = Inr c"
    "neighbour_list E a c = Some ps"
    "ts = triplet_list E (first_neighbours E (len_atoms a) (i_p ps))"
    "t_n = map (atom_type self) (numbers a)"
    "in_range (length ps) (ij_t ts)" "in_range (length ps) (ik_t ts)"
    "in_range (len_atoms a) (i_p ps)" "in_range (len_atoms a) (j_p ps)"
    "bincount (ij_t ts) (theta_family self (theta self) ps ts t_n) (length ps) = Inr xi_p"
    "d1phi_p = phi_family self (d1phi self) ps xi_p t_n"
    "d2phi_p = phi_family self (d2phi self) ps xi_p t_n"
    "fij_p = fij_pc d1phi_p ps"
    "fij_t = fij_tc d2phi_p (theta_family self (d1theta self) ps ts t_n) ps ts"
    "fik_t = fik_tc d2phi_p (theta_family self (d2theta self) ps ts t_n) ps ts"
    "fjk_t = fjk_tc d2phi_p (theta_family self (d3theta self) ps ts t_n) ps ts"
    "f_nc (len_atoms a) ps ts fij_p fij_t fik_t fjk_t = Inr fo"
    "self' = self\<lparr>atoms := Some a, results := Some
      \<lparr> free_energy = (1 / 2) * sum_list (phi_family self (phi self) ps xi_p t_n),
        energy = (1 / 2) * sum_list (phi_family self (phi self) ps xi_p t_n),
        stress = map (\<lambda>v. v / volume a)
          (map2 (+) (virial_pair ps fij_p) (virial_triplet ps ts fij_t fik_t fjk_t)),
        forces = fo \<rparr>\<rparr>"
proof -
  from calculate_InrD [OF assms] obtain c ps xi_p fo where
    h: "get_cutoff self a = Inr c" "neighbour_list E a c = Some ps"
    "in_range (length ps) (ij_t (triplet_list E (first_neighbours E (len_atoms a) (i_p ps))))"
    "in_range (length ps) (ik_t (triplet_list E (first_neighbours E (len_atoms a) (i_p ps))))"
    "in_range (len_atoms a) (i_p ps)" "in_range (len_atoms a) (j_p ps)"
    "bincount (ij_t (triplet_list E (first_neighbours E (len_atoms a) (i_p ps))))
      (theta_family self (theta self) ps
         (triplet_list E (first_neighbours E (len_atoms a) (i_p ps)))
         (map (atom_type self) (numbers a))) (length ps) = Inr xi_p"
    "f_nc (len_atoms a) ps (triplet_list E (first_neighbours E (len_atoms a) (i_p ps)))
      (fij_pc (phi_family self (d1phi self) ps xi_p (map (atom_type self) (numbers a))) ps)
      (fij_tc (phi_family self (d2phi self) ps xi_p (map (atom_type self) (numbers a)))
         (theta_family self (d1theta self) ps
           (triplet_list E (first_neighbours E (len_atoms a) (i_p ps)))
           (map (atom_type self) (numbers a)))
         ps (triplet_list E (first_neighbours E (len_atoms a) (i_p ps))))
      (fik_tc (phi_family self (d2phi self) ps xi_p (map (atom_type self) (numbers a)))
         (theta_family self (d2theta self) ps
           (triplet_list E (first_neighbours E (len_atoms a) (i_p ps)))
           (map (atom_type self) (numbers a)))
         ps (triplet_list E (first_neighbours E (len_atoms a) (i_p ps))))
      (fjk_tc (phi_family self (d2phi self) ps xi_p (map (atom_type self) (numbers a)))
         (theta_family self (d3theta self) ps
           (triplet_list E (first_neighbours E (len_atoms a) (i_p ps)))
           (map (atom_type self) (numbers a)))
         ps (triplet_list E (first_neighbours E (len_atoms a) (i_p ps)))) = Inr fo"
    by blast
  note eq = calculate_eq [OF h(1) h(2) refl refl h(3) h(4) h(5) h(6) h(7)
      refl refl refl refl refl refl h(8)]
  from eq assms have "self' = self\<lparr>atoms := Some a, results := Some
      \<lparr> free_energy = (1 / 2) * sum_list (phi_family self (phi self) ps xi_p
          (map (atom_type self) (numbers a))),
        energy = (1 / 2) * sum_list (phi_family self (phi self) ps xi_p
          (map (atom_type self) (numbers a))),
        stress = map (\<lambda>v. v / volume a)
          (map2 (+) (virial_pair ps
             (fij_pc (phi_family self (d1phi self) ps xi_p (map (atom_type self) (numbers a))) ps))
           (virial_triplet ps (triplet_list E (first_neighbours E (len_atoms a) (i_p ps)))
      (fij_tc (phi_family self (d2phi self) ps xi_p (map (atom_type self) (numbers a)))
         (theta_family self (d1theta self) ps
           (triplet_list E (first_neighbours E (len_atoms a) (i_p ps)))
           (map (atom_type self) (numbers a)))
         ps (triplet_list E (first_neighbours E (len_atoms a) (i_p ps))))
      (fik_tc (phi_family self (d2phi self) ps xi_p (map (atom_type self) (numbers a)))
         (theta_family self (d2theta self) ps
           (triplet_list E (first_neighbours E (len_atoms a) (i_p ps)))
           (map (atom_type self) (numbers a)))
         ps (triplet_list E (first_neighbours E (len_atoms a) (i_p ps))))
      (fjk_tc (phi_family self (d2phi self) ps xi_p (map (atom_type self) (numbers a)))
         (theta_family self (d3theta self) ps
           (triplet_list E (first_neighbours E (len_atoms a) (i_p ps)))
           (map (atom_type self) (numbers a)))
         ps (triplet_list E (first_neighbours E (len_atoms a) (i_p ps)))))),
        forces = fo \<rparr>\<rparr>"
    by simp
  with h show thesis
    by (intro that [OF h(1) h(2) refl refl h(3) h(4) h(5) h(6) h(7)
          refl refl refl refl refl refl h(8)])
qed

lemmas ex_defs = ex_calc_def Manybody_init_def ex_env_def ex_atoms_def ex_pairs_def

lemmas arr_defs = in_range_def ij_t_def ik_t_def i_p_def j_p_def r_p_def r_pc_def
  len_atoms_def gather_def vectorize5_def vectorize9_def bincount_def nb_bins_def
  mabincount_def smul_def sq_norm_def minus_vec3_def plus_vec3_def zero_vec3_def
  upt_conv_Cons

lemma ex_calculate:
  "calculate ex_env ex_calc ex_atoms =
     Inr (ex_calc\<lparr>atoms := Some ex_atoms, results := Some ex_results\<rparr>)"
  by (simp add: calculate_def get_cutoff_def theta_family_def phi_family_def
     fij_pc_def fij_tc_def fik_tc_def fjk_tc_def f_nc_def virial_rows_def virial_pair_def
     virial_triplet_def ex_results_def ex_defs arr_defs Let_def)

lemma results_upd_irrelevant [simp]:
  "get_cutoff (self\<lparr>results := y\<rparr>) a = get_cutoff self a"
  "theta_family (self\<lparr>results := y\<rparr>) f ps ts t_n = theta_family self f ps ts t_n"
  "phi_family (self\<lparr>results := y\<rparr>) g ps xi t_n = phi_family self g ps xi t_n"
  by (simp_all add: get_cutoff_def theta_family_def phi_family_def Let_def
      split: cutoff_spec.splits)

lemma calculate_ignores_state:
  "calculate E (self\<lparr>atoms := x, results := y\<rparr>) a = calculate E self a"
  unfolding calculate_def Let_def
  by (simp cong: if_cong option.case_cong)

lemma phi_family_explicit:
  "phi_family self f ps xi_p (map (atom_type self) nums) =
     map (\<lambda>p. f (p_d (ps ! p) * p_d (ps ! p)) (p_d (ps ! p)) (xi_p ! p)
                 (map (atom_type self) nums ! p_i (ps ! p))
                 (pair_type self (map (atom_type self) nums ! p_i (ps ! p))
                    (map (atom_type self) nums ! p_j (ps ! p))))
       [0..<length ps]"
  by (simp add: phi_family_def vectorize5_def Let_def gather_def r_p_def i_p_def j_p_def)

lemma ex2_calculate:
  "calculate ex2_env ex_calc ex2_atoms =
     Inr (ex_calc\<lparr>atoms := Some ex2_atoms, results := Some
       \<lparr> free_energy = 1, energy = 1, stress = [1 / 4, 0, 0, 0, 0, 0],
         forces = [Vec3 2 0 0, Vec3 (- 2) 0 0] \<rparr>\<rparr>)"
  by (simp add: calculate_def get_cutoff_def theta_family_def phi_family_def
     fij_pc_def fij_tc_def fik_tc_def fjk_tc_def f_nc_def virial_rows_def virial_pair_def
     virial_triplet_def ex_calc_def Manybody_init_def ex2_env_def ex2_atoms_def ex2_pairs_def
     arr_defs Let_def)

lemma sum_list_map2_upt:
  fixes f :: "'a \<Rightarrow> 'b \<Rightarrow> real"
  shows "length xs = length ys \<Longrightarrow>
    sum_list (map2 f xs ys) = (\<Sum>k\<leftarrow>[0..<length xs]. f (xs ! k) (ys ! k))"
proof -
  assume l: "length xs = length ys"
  have "map2 f xs ys = map (\<lambda>k. f (xs ! k) (ys ! k)) [0..<length xs]"
    by (rule nth_equalityI) (simp_all add: l)
  then show ?thesis by (simp only:)
qed

lemma sum_list_upt_cong:
  fixes f g :: "nat \<Rightarrow> real"
  shows "(\<And>k. k < n \<Longrightarrow> f k = g k) \<Longrightarrow> (\<Sum>k\<leftarrow>[0..<n]. f k) = (\<Sum>k\<leftarrow>[0..<n]. g k)"
  by (intro arg_cong [where f = sum_list] map_cong) auto

lemma virial_rows_sums:
  assumes "length r = length f"
  shows "map sum_list (virial_rows r f) =
    voigt (\<lambda>x y. \<Sum>k\<leftarrow>[0..<length r]. outer (r ! k) (f ! k) x y)"
proof -
  have "\<And>u v :: vec3 \<Rightarrow> real.
    sum_list (map2 (*) (map u r) (map v f)) = (\<Sum>k\<leftarrow>[0..<length r]. u (r ! k) * v (f ! k))"
  proof -
    fix u v :: "vec3 \<Rightarrow> real"
    have "sum_list (map2 (*) (map u r) (map v f)) =
        (\<Sum>k\<leftarrow>[0..<length (map u r)]. map u r ! k * map v f ! k)"
      by (rule sum_list_map2_upt) (simp add: assms)
    also have "\<dots> = (\<Sum>k\<leftarrow>[0..<length r]. u (r ! k) * v (f ! k))"
      unfolding length_map by (rule sum_list_upt_cong) (simp add: assms [symmetric])
    finally show "sum_list (map2 (*) (map u r) (map v f)) =
        (\<Sum>k\<leftarrow>[0..<length r]. u (r ! k) * v (f ! k))" .
  qed
  then show ?thesis
    by (simp add: virial_rows_def voigt_def outer_def vcomp_def)
qed

lemma virial_pair_voigt:
  assumes "length fp = length ps"
  shows "virial_pair ps fp =
    voigt (\<lambda>x y. \<Sum>p\<leftarrow>[0..<length ps]. outer (p_D (ps ! p)) (fp ! p) x y)"
proof -
  have "virial_pair ps fp =
      voigt (\<lambda>x y. \<Sum>k\<leftarrow>[0..<length (r_pc ps)]. outer (r_pc ps ! k) (fp ! k) x y)"
    unfolding virial_pair_def using assms by (intro virial_rows_sums) simp
  also have "\<dots> = voigt (\<lambda>x y. \<Sum>p\<leftarrow>[0..<length ps]. outer (p_D (ps ! p)) (fp ! p) x y)"
  proof -
    have "\<And>x y. (\<Sum>k\<leftarrow>[0..<length (r_pc ps)]. outer (r_pc ps ! k) (fp ! k) x y) =
        (\<Sum>p\<leftarrow>[0..<length ps]. outer (p_D (ps ! p)) (fp ! p) x y)"
      unfolding length_r_pc by (rule sum_list_upt_cong) (simp add: r_pc_def)
    then show ?thesis by (simp only:)
  qed
  finally show ?thesis .
qed

lemma sum_rows3:
  fixes a b c :: "real list"
  assumes "length a = n" "length b = n" "length c = n"
  shows "sum_list (map2 (+) (map2 (+) a b) c) = sum_list a + sum_list b + sum_list c"
  using assms by (simp add: sum_list_map2_add)

lemma length_virial_rows_nth:
  "length r = length f \<Longrightarrow> k < 6 \<Longrightarrow> length (virial_rows r f ! k) = length r"
  by (auto simp: virial_rows_def nth_Cons' )

lemma virial_triplet_voigt:
  assumes l: "length fij = length ts" "length fik = length ts" "length fjk = length ts"
    and rt: "in_range (length ps) (ij_t ts)" "in_range (length ps) (ik_t ts)"
  shows "virial_triplet ps ts fij fik fjk =
    voigt (\<lambda>x y. \<Sum>t\<leftarrow>[0..<length ts].
        outer (p_D (ps ! fst (ts ! t))) (fij ! t) x y +
        outer (p_D (ps ! snd (ts ! t))) (fik ! t) x y +
        outer (p_D (ps ! snd (ts ! t)) - p_D (ps ! fst (ts ! t))) (fjk ! t) x y)"
proof -
  let ?rij = "gather (r_pc ps) (ij_t ts)"
  let ?rik = "gather (r_pc ps) (ik_t ts)"
  let ?rjk = "map2 (-) ?rik ?rij"
  have g: "\<And>t. t < length ts \<Longrightarrow> ?rij ! t = p_D (ps ! fst (ts ! t))"
    "\<And>t. t < length ts \<Longrightarrow> ?rik ! t = p_D (ps ! snd (ts ! t))"
    "\<And>t. t < length ts \<Longrightarrow> ?rjk ! t = p_D (ps ! snd (ts ! t)) - p_D (ps ! fst (ts ! t))"
    using rt
    by (auto simp: gather_def ij_t_def ik_t_def r_pc_def in_range_def list_all_iff)
  have "virial_triplet ps ts fij fik fjk =
      map2 (+) (map2 (+) (map sum_list (virial_rows ?rij fij))
                 (map sum_list (virial_rows ?rik fik)))
        (map sum_list (virial_rows ?rjk fjk))"
    using l
    by (simp add: virial_triplet_def virial_rows_def sum_list_map2_add)
  also have "\<dots> = voigt (\<lambda>x y.
      (\<Sum>t\<leftarrow>[0..<length ts]. outer (?rij ! t) (fij ! t) x y) +
      (\<Sum>t\<leftarrow>[0..<length ts]. outer (?rik ! t) (fik ! t) x y) +
      (\<Sum>t\<leftarrow>[0..<length ts]. outer (?rjk ! t) (fjk ! t) x y))"
    using l by (simp add: virial_rows_sums voigt_def)
  also have "\<dots> = voigt (\<lambda>x y. \<Sum>t\<leftarrow>[0..<length ts].
        outer (?rij ! t) (fij ! t) x y + outer (?rik ! t) (fik ! t) x y +
        outer (?rjk ! t) (fjk ! t) x y)"
    by (simp add: sum_list_addf)
  also have "\<dots> = voigt (\<lambda>x y. \<Sum>t\<leftarrow>[0..<length ts].
        outer (p_D (ps ! fst (ts ! t))) (fij ! t) x y +
        outer (p_D (ps ! snd (ts ! t))) (fik ! t) x y +
        outer (p_D (ps ! snd (ts ! t)) - p_D (ps ! fst (ts ! t))) (fjk ! t) x y)"
  proof -
    have "\<And>x y. (\<Sum>t\<leftarrow>[0..<length ts].
        outer (?rij ! t) (fij ! t) x y + outer (?rik ! t) (fik ! t) x y +
        outer (?rjk ! t) (fjk ! t) x y) =
      (\<Sum>t\<leftarrow>[0..<length ts].
        outer (p_D (ps ! fst (ts ! t))) (fij ! t) x y +
        outer (p_D (ps ! snd (ts ! t))) (fik ! t) x y +
        outer (p_D (ps ! snd (ts ! t)) - p_D (ps ! fst (ts ! t))) (fjk ! t) x y)"
      by (rule sum_list_upt_cong) (simp only: g)
    then show ?thesis by (simp only:)
  qed
  finally show ?thesis .
qed

lemma voigt_add:
  "map2 (+) (voigt A) (voigt B) = voigt (\<lambda>x y. A x y + B x y)"
  by (simp add: voigt_def)

lemma scatter_add_nth_spec:
  assumes "length ws = length ks" "p < n"
  shows "scatter_add ks ws (replicate n 0) ! p =
           (\<Sum>k\<leftarrow>[0..<length ws]. if ks ! k = p then ws ! k else 0)"
proof -
  have "scatter_add ks ws (replicate n 0) ! p =
      (\<Sum>(k, w)\<leftarrow>zip ks ws. if k = p then w else 0)"
    using assms(2) by (simp add: nth_scatter_add)
  also have "\<dots> = (\<Sum>k\<leftarrow>[0..<length ks]. if ks ! k = p then ws ! k else 0)"
    by (rule sum_list_map2_upt) (simp add: assms(1))
  finally show ?thesis by (simp add: assms(1))
qed

lemma sel_scatter_spec:
  "vx (scatter_spec keys f n) = (\<Sum>k\<leftarrow>[0..<length f]. if keys ! k = n then vx (f ! k) else 0)"
  "vy (scatter_spec keys f n) = (\<Sum>k\<leftarrow>[0..<length f]. if keys ! k = n then vy (f ! k) else 0)"
  "vz (scatter_spec keys f n) = (\<Sum>k\<leftarrow>[0..<length f]. if keys ! k = n then vz (f ! k) else 0)"
  unfolding scatter_spec_def vx_sum_list vy_sum_list vz_sum_list
  by (simp_all add: comp_def zero_vec3_def if_distrib cong: if_cong)

lemma mabincount_nth:
  assumes "length w = length x" "in_range n x" "mabincount x w n = Inr r" "p < n"
  shows "r ! p = scatter_spec x w p"
proof -
  have r: "r = map (\<lambda>k. Vec3 (scatter_add x (map vx w) (replicate n 0) ! k)
                        (scatter_add x (map vy w) (replicate n 0) ! k)
                        (scatter_add x (map vz w) (replicate n 0) ! k)) [0..<n]"
    using assms by (simp add: mabincount_ok)
  have c: "scatter_add x (map u w) (replicate n 0) ! p =
      (\<Sum>k\<leftarrow>[0..<length w]. if x ! k = p then u (w ! k) else 0)" for u :: "vec3 \<Rightarrow> real"
  proof -
    have "scatter_add x (map u w) (replicate n 0) ! p =
        (\<Sum>k\<leftarrow>[0..<length (map u w)]. if x ! k = p then map u w ! k else 0)"
      by (rule scatter_add_nth_spec) (simp_all add: assms)
    also have "\<dots> = (\<Sum>k\<leftarrow>[0..<length w]. if x ! k = p then u (w ! k) else 0)"
      unfolding length_map by (rule sum_list_upt_cong) simp
    finally show ?thesis .
  qed
  have "r ! p = Vec3 (scatter_add x (map vx w) (replicate n 0) ! p)
                     (scatter_add x (map vy w) (replicate n 0) ! p)
                     (scatter_add x (map vz w) (replicate n 0) ! p)"
    using assms(4) by (simp add: r)
  then show ?thesis
    unfolding c by (simp add: vec3.expand sel_scatter_spec)
qed

lemma f_nc_nth:
  assumes lp: "length fij_p = length ps"
    and lt: "length fij_t = length ts" "length fik_t = length ts" "length fjk_t = length ts"
    and rp: "in_range n (i_p ps)" "in_range n (j_p ps)"
    and rt: "in_range (length ps) (ij_t ts)" "in_range (length ps) (ik_t ts)"
    and fo: "f_nc n ps ts fij_p fij_t fik_t fjk_t = Inr fo"
    and m: "m < n"
  shows "fo ! m =
    bond_scatter (i_p ps) (j_p ps) fij_p m +
    bond_scatter (gather (i_p ps) (ij_t ts)) (gather (j_p ps) (ij_t ts)) fij_t m +
    bond_scatter (gather (i_p ps) (ik_t ts)) (gather (j_p ps) (ik_t ts)) fik_t m +
    bond_scatter (gather (j_p ps) (ij_t ts)) (gather (j_p ps) (ik_t ts)) fjk_t m"
proof -
  have g: "in_range n (gather (i_p ps) (ij_t ts))" "in_range n (gather (j_p ps) (ij_t ts))"
    "in_range n (gather (i_p ps) (ik_t ts))" "in_range n (gather (j_p ps) (ik_t ts))"
    using rp rt by (simp_all add: in_range_gather)
  obtain a1 where a1: "mabincount (i_p ps) fij_p n = Inr a1"
    using lp rp by (simp add: mabincount_ok)
  obtain a2 where a2: "mabincount (j_p ps) fij_p n = Inr a2"
    using lp rp by (simp add: mabincount_ok)
  obtain b1 where b1: "mabincount (gather (i_p ps) (ij_t ts)) fij_t n = Inr b1"
    using lt g by (simp add: mabincount_ok)
  obtain b2 where b2: "mabincount (gather (j_p ps) (ij_t ts)) fij_t n = Inr b2"
    using lt g by (simp add: mabincount_ok)
  obtain b3 where b3: "mabincount (gather (i_p ps) (ik_t ts)) fik_t n = Inr b3"
    using lt g by (simp add: mabincount_ok)
  obtain b4 where b4: "mabincount (gather (j_p ps) (ik_t ts)) fik_t n = Inr b4"
    using lt g by (simp add: mabincount_ok)
  obtain b5 where b5: "mabincount (gather (j_p ps) (ij_t ts)) fjk_t n = Inr b5"
    using lt g by (simp add: mabincount_ok)
  obtain b6 where b6: "mabincount (gather (j_p ps) (ik_t ts)) fjk_t n = Inr b6"
    using lt g by (simp add: mabincount_ok)
  note s1 = sum_list_mabincount [OF _ rp(1) a1] sum_list_mabincount [OF _ rp(2) a2]
  note s2 = sum_list_mabincount [OF _ g(1) b1] sum_list_mabincount [OF _ g(2) b2]
    sum_list_mabincount [OF _ g(3) b3] sum_list_mabincount [OF _ g(4) b4]
    sum_list_mabincount [OF _ g(2) b5] sum_list_mabincount [OF _ g(4) b6]
  have len: "length a1 = n" "length a2 = n" "length b1 = n" "length b2 = n"
    "length b3 = n" "length b4 = n" "length b5 = n" "length b6 = n"
    using s1 s2 lp lt by simp_all
  have nth: "a1 ! m = scatter_spec (i_p ps) fij_p m" "a2 ! m = scatter_spec (j_p ps) fij_p m"
    "b1 ! m = scatter_spec (gather (i_p ps) (ij_t ts)) fij_t m"
    "b2 ! m = scatter_spec (gather (j_p ps) (ij_t ts)) fij_t m"
    "b3 ! m = scatter_spec (gather (i_p ps) (ik_t ts)) fik_t m"
    "b4 ! m = scatter_spec (gather (j_p ps) (ik_t ts)) fik_t m"
    "b5 ! m = scatter_spec (gather (j_p ps) (ij_t ts)) fjk_t m"
    "b6 ! m = scatter_spec (gather (j_p ps) (ik_t ts)) fjk_t m"
    using mabincount_nth [OF _ rp(1) a1 m] mabincount_nth [OF _ rp(2) a2 m]
      mabincount_nth [OF _ g(1) b1 m] mabincount_nth [OF _ g(2) b2 m]
      mabincount_nth [OF _ g(3) b3 m] mabincount_nth [OF _ g(4) b4 m]
      mabincount_nth [OF _ g(2) b5 m] mabincount_nth [OF _ g(4) b6 m] lp lt
    by simp_all
  have "fo = map2 (+) (map2 (-) a1 a2)
             (map2 (-) (map2 (+) (map2 (-) (map2 (+) (map2 (-) b1 b2) b3) b4) b5) b6)"
    using fo by (simp add: f_nc_def a1 a2 b1 b2 b3 b4 b5 b6)
  then have "fo ! m = (a1 ! m - a2 ! m) +
      (((((b1 ! m - b2 ! m) + b3 ! m) - b4 ! m) + b5 ! m) - b6 ! m)"
    using m by (simp add: len)
  then show ?thesis
    by (simp add: nth bond_scatter_def algebra_simps)
qed

section \<open>Claims about \<^verbatim>\<open>calculate\<close>\<close>

text \<open>
  C1.  Whenever \<^verbatim>\<open>calculate\<close> returns, the force array it stores has one row per
  atom; the row of atom \<open>n\<close> is what the scatter rule of the specification gives for the
  four contributions: the pair force \<open>fij_p\<close> with owner \<open>i\<close> and partner \<open>j\<close> of the
  pair, and the three triplet forces, \<open>fij_t\<close> with owner \<open>i\<close> and partner \<open>j\<close> of the
  \<open>ij\<close> pair, \<open>fik_t\<close> with owner \<open>i\<close> and partner \<open>k\<close> of the \<open>ik\<close> pair, and
  \<open>fjk_t\<close> with owner \<open>j\<close> and partner \<open>k\<close>, each added to the owner and subtracted
  from the partner.  The rows sum to the zero vector.
\<close>

theorem calculate_forces_sum_zero:
  assumes "calculate E self a = Inr self'"
  shows "\<exists>c ps ts t_n xi_p d1phi_p d2phi_p fij_p fij_t fik_t fjk_t res.
    get_cutoff self a = Inr c \<and> neighbour_list E a c = Some ps \<and>
    ts = triplet_list E (first_neighbours E (len_atoms a) (i_p ps)) \<and>
    t_n = map (atom_type self) (numbers a) \<and>
    bincount (ij_t ts) (theta_family self (theta self) ps ts t_n) (length ps) = Inr xi_p \<and>
    d1phi_p = phi_family self (d1phi self) ps xi_p t_n \<and>
    d2phi_p = phi_family self (d2phi self) ps xi_p t_n \<and>
    fij_p = fij_pc d1phi_p ps \<and>
    fij_t = fij_tc d2phi_p (theta_family self (d1theta self) ps ts t_n) ps ts \<and>
    fik_t = fik_tc d2phi_p (theta_family self (d2theta self) ps ts t_n) ps ts \<and>
    fjk_t = fjk_tc d2phi_p (theta_family self (d3theta self) ps ts t_n) ps ts \<and>
    results self' = Some res \<and>
    length (forces res) = len_atoms a \<and>
    (\<forall>n<len_atoms a. forces res ! n =
       bond_scatter (i_p ps) (j_p ps) fij_p n +
       bond_scatter (gather (i_p ps) (ij_t ts)) (gather (j_p ps) (ij_t ts)) fij_t n +
       bond_scatter (gather (i_p ps) (ik_t ts)) (gather (j_p ps) (ik_t ts)) fik_t n +
       bond_scatter (gather (j_p ps) (ij_t ts)) (gather (j_p ps) (ik_t ts)) fjk_t n) \<and>
    sum_list (forces res) = 0"
proof -
  from assms obtain c ps ts t_n xi_p d1phi_p d2phi_p fij_p fij_t fik_t fjk_t fo where
    h: "get_cutoff self a = Inr c"
    "neighbour_list E a c = Some ps"
    "ts = triplet_list E (first_neighbours E (len_atoms a) (i_p ps))"
    "t_n = map (atom_type self) (numbers a)"
    "bincount (ij_t ts) (theta_family self (theta self) ps ts t_n) (length ps) = Inr xi_p"
    "d1phi_p = phi_family self (d1phi self) ps xi_p t_n"
    "d2phi_p = phi_family self (d2phi self) ps xi_p t_n"
    "fij_p = fij_pc d1phi_p ps"
    "fij_t = fij_tc d2phi_p (theta_family self (d1theta self) ps ts t_n) ps ts"
    "fik_t = fik_tc d2phi_p (theta_family self (d2theta self) ps ts t_n) ps ts"
    "fjk_t = fjk_tc d2phi_p (theta_family self (d3theta self) ps ts t_n) ps ts"
    and rt: "in_range (length ps) (ij_t ts)" "in_range (length ps) (ik_t ts)"
    and rp: "in_range (len_atoms a) (i_p ps)" "in_range (len_atoms a) (j_p ps)"
    and fo: "f_nc (len_atoms a) ps ts fij_p fij_t fik_t fjk_t = Inr fo"
    and s: "self' = self\<lparr>atoms := Some a, results := Some
      \<lparr> free_energy = (1 / 2) * sum_list (phi_family self (phi self) ps xi_p t_n),
        energy = (1 / 2) * sum_list (phi_family self (phi self) ps xi_p t_n),
        stress = map (\<lambda>v. v / volume a)
          (map2 (+) (virial_pair ps fij_p) (virial_triplet ps ts fij_t fik_t fjk_t)),
        forces = fo \<rparr>\<rparr>"
    by (rule calculate_InrE) blast
  have lp: "length fij_p = length ps"
    by (simp add: h(8) h(6) length_fij_pc)
  have lt: "length fij_t = length ts" "length fik_t = length ts" "length fjk_t = length ts"
    by (simp_all add: h(9) h(10) h(11) length_fij_tc length_fik_tc length_fjk_tc)
  from f_nc_sum [OF lp lt rp rt] fo
  have z: "length fo = len_atoms a" "sum_list fo = 0" by auto
  define res where "res = the (results self')"
  have r: "results self' = Some res" "forces res = fo"
    by (simp_all add: res_def s)
  have n: "\<forall>n<len_atoms a. forces res ! n =
       bond_scatter (i_p ps) (j_p ps) fij_p n +
       bond_scatter (gather (i_p ps) (ij_t ts)) (gather (j_p ps) (ij_t ts)) fij_t n +
       bond_scatter (gather (i_p ps) (ik_t ts)) (gather (j_p ps) (ik_t ts)) fik_t n +
       bond_scatter (gather (j_p ps) (ij_t ts)) (gather (j_p ps) (ik_t ts)) fjk_t n"
    unfolding r(2) using f_nc_nth [OF lp lt rp rt fo] by blast
  from h r(1) z [folded r(2)] n show ?thesis by blast
qed

theorem calculate_forces_sum_zero_witness:
  "calculate ex_env ex_calc ex_atoms =
     Inr (ex_calc\<lparr>atoms := Some ex_atoms, results := Some ex_results\<rparr>) \<and>
   forces ex_results =
     [Vec3 7 (21 / 5) (28 / 5), Vec3 (- 9) (6 / 5) (8 / 5), Vec3 2 (- (27 / 5)) (- (36 / 5))] \<and>
   length (forces ex_results) = len_atoms ex_atoms \<and>
   sum_list (forces ex_results) = 0"
proof -
  from calculate_forces_sum_zero [OF ex_calculate]
  obtain res where
    "results (ex_calc\<lparr>atoms := Some ex_atoms, results := Some ex_results\<rparr>) = Some res"
    "length (forces res) = len_atoms ex_atoms" "sum_list (forces res) = 0"
    by blast
  then have "length (forces ex_results) = len_atoms ex_atoms" "sum_list (forces ex_results) = 0"
    by simp_all
  with ex_calculate show ?thesis by (simp add: ex_results_def)
qed

text \<open>
  C2.  The energy that \<^verbatim>\<open>calculate\<close> stores is one half of the sum of \<open>phi\<close> over
  all rows of the neighbour list (each bond is listed in both directions), \<open>phi\<close>
  being called with the squared distance, the distance, the coordination \<open>xi_p\<close> and
  the type codes of the row.  For two atoms of one species \<open>z\<close> at distance \<open>r0\<close>,
  listed as two mirrored rows, with no triplet, \<^verbatim>\<open>calculate\<close> returns and the energy
  is \<open>phi\<close> of that one bond, with \<open>xi = 0\<close>.
\<close>

theorem calculate_energy:
  "(calculate E self a = Inr self' \<longrightarrow>
      (\<exists>c ps xi_p res.
         get_cutoff self a = Inr c \<and> neighbour_list E a c = Some ps \<and>
         bincount (ij_t (triplet_list E (first_neighbours E (len_atoms a) (i_p ps))))
           (theta_family self (theta self) ps
              (triplet_list E (first_neighbours E (len_atoms a) (i_p ps)))
              (map (atom_type self) (numbers a)))
           (length ps) = Inr xi_p \<and>
         results self' = Some res \<and>
         energy res =
           (1 / 2) * (\<Sum>p\<leftarrow>[0..<length ps].
              phi self (p_d (ps ! p) * p_d (ps ! p)) (p_d (ps ! p)) (xi_p ! p)
                (map (atom_type self) (numbers a) ! p_i (ps ! p))
                (pair_type self (map (atom_type self) (numbers a) ! p_i (ps ! p))
                   (map (atom_type self) (numbers a) ! p_j (ps ! p)))))) \<and>
   (numbers b = [z, z] \<and> get_cutoff self b = Inr c0 \<and>
    neighbour_list E b c0 =
      Some [\<lparr> p_i = 0, p_j = 1, p_d = r0, p_D = Vec3 r0 0 0 \<rparr>,
            \<lparr> p_i = 1, p_j = 0, p_d = r0, p_D = Vec3 (- r0) 0 0 \<rparr>] \<and>
    triplet_list E (first_neighbours E 2 [0, 1]) = [] \<longrightarrow>
      (\<exists>self'' res. calculate E self b = Inr self'' \<and> results self'' = Some res \<and>
         energy res = phi self (r0 * r0) r0 0 (atom_type self z)
                        (pair_type self (atom_type self z) (atom_type self z))))"
proof (intro conjI impI)
  assume "calculate E self a = Inr self'"
  then obtain c ps ts t_n xi_p where
    h: "get_cutoff self a = Inr c" "neighbour_list E a c = Some ps"
      "ts = triplet_list E (first_neighbours E (len_atoms a) (i_p ps))"
      "t_n = map (atom_type self) (numbers a)"
      "bincount (ij_t ts) (theta_family self (theta self) ps ts t_n) (length ps) = Inr xi_p"
    and e: "results self' \<noteq> None"
      "energy (the (results self')) = (1 / 2) * sum_list (phi_family self (phi self) ps xi_p t_n)"
    by (rule calculate_InrE) simp
  from e obtain res where res: "results self' = Some res" by auto
  show "\<exists>c ps xi_p res.
         get_cutoff self a = Inr c \<and> neighbour_list E a c = Some ps \<and>
         bincount (ij_t (triplet_list E (first_neighbours E (len_atoms a) (i_p ps))))
           (theta_family self (theta self) ps
              (triplet_list E (first_neighbours E (len_atoms a) (i_p ps)))
              (map (atom_type self) (numbers a)))
           (length ps) = Inr xi_p \<and>
         results self' = Some res \<and>
         energy res =
           (1 / 2) * (\<Sum>p\<leftarrow>[0..<length ps].
              phi self (p_d (ps ! p) * p_d (ps ! p)) (p_d (ps ! p)) (xi_p ! p)
                (map (atom_type self) (numbers a) ! p_i (ps ! p))
                (pair_type self (map (atom_type self) (numbers a) ! p_i (ps ! p))
                   (map (atom_type self) (numbers a) ! p_j (ps ! p))))"
    using h e res
    by (intro exI [of _ c] exI [of _ ps] exI [of _ xi_p] exI [of _ res])
      (simp add: phi_family_explicit)
next
  assume s: "numbers b = [z, z] \<and> get_cutoff self b = Inr c0 \<and>
    neighbour_list E b c0 =
      Some [\<lparr> p_i = 0, p_j = 1, p_d = r0, p_D = Vec3 r0 0 0 \<rparr>,
            \<lparr> p_i = 1, p_j = 0, p_d = r0, p_D = Vec3 (- r0) 0 0 \<rparr>] \<and>
    triplet_list E (first_neighbours E 2 [0, 1]) = []"
  define ps where "ps = [\<lparr> p_i = 0, p_j = 1, p_d = r0, p_D = Vec3 r0 0 0 \<rparr>,
            \<lparr> p_i = 1, p_j = 0, p_d = r0, p_D = Vec3 (- r0) 0 0 \<rparr>]"
  define t_n where "t_n = map (atom_type self) (numbers b)"
  from s have c: "get_cutoff self b = Inr c0" and nl: "neighbour_list E b c0 = Some ps"
    and nb: "numbers b = [z, z]"
    and ts0: "triplet_list E (first_neighbours E 2 [0, 1]) = []"
    by (simp_all add: ps_def)
  have "len_atoms b = 2" "i_p ps = [0, 1]"
    by (simp_all add: len_atoms_def nb i_p_def ps_def)
  with ts0 have ts: "[] = triplet_list E (first_neighbours E (len_atoms b) (i_p ps))"
    by simp
  have rp: "in_range (len_atoms b) (i_p ps)" "in_range (len_atoms b) (j_p ps)"
    by (simp_all add: ps_def len_atoms_def nb in_range_def i_p_def j_p_def)
  have rt: "in_range (length ps) (ij_t [])" "in_range (length ps) (ik_t [])"
    by (simp_all add: in_range_def ij_t_def ik_t_def)
  have xi: "bincount (ij_t []) (theta_family self (theta self) ps [] t_n) (length ps) = Inr [0, 0]"
    by (simp add: bincount_def ij_t_def theta_family_def vectorize9_def gather_def nb_bins_def
        ps_def Let_def)
  obtain self'' where r: "calculate E self b = Inr self''"
    using calculate_returns [OF c nl ts rt rp] by blast
  then obtain c' ps' ts' t_n' xi_p' where
    h: "get_cutoff self b = Inr c'" "neighbour_list E b c' = Some ps'"
      "ts' = triplet_list E (first_neighbours E (len_atoms b) (i_p ps'))"
      "t_n' = map (atom_type self) (numbers b)"
      "bincount (ij_t ts') (theta_family self (theta self) ps' ts' t_n') (length ps') = Inr xi_p'"
    and e: "results self'' \<noteq> None"
      "energy (the (results self'')) =
         (1 / 2) * sum_list (phi_family self (phi self) ps' xi_p' t_n')"
    by (rule calculate_InrE) simp
  from h c nl ts xi have eqs: "ps' = ps" "ts' = []" "xi_p' = [0, 0]"
    by (simp_all add: t_n_def)
  have "energy (the (results self'')) =
      phi self (r0 * r0) r0 0 (atom_type self z)
        (pair_type self (atom_type self z) (atom_type self z))"
    unfolding e(2) eqs h(4) phi_family_explicit
    by (simp add: ps_def nb upt_conv_Cons)
  with e(1) r show "\<exists>self'' res. calculate E self b = Inr self'' \<and> results self'' = Some res \<and>
         energy res = phi self (r0 * r0) r0 0 (atom_type self z)
                        (pair_type self (atom_type self z) (atom_type self z))"
    by auto
qed

theorem calculate_energy_witness:
  "calculate ex_env ex_calc ex_atoms =
     Inr (ex_calc\<lparr>atoms := Some ex_atoms, results := Some ex_results\<rparr>) \<and>
   energy ex_results = 5 \<and>
   numbers ex2_atoms = [14, 14] \<and> get_cutoff ex_calc ex2_atoms = Inr (5 / 4) \<and>
   neighbour_list ex2_env ex2_atoms (5 / 4) =
      Some [\<lparr> p_i = 0, p_j = 1, p_d = 1, p_D = Vec3 1 0 0 \<rparr>,
            \<lparr> p_i = 1, p_j = 0, p_d = 1, p_D = Vec3 (- 1) 0 0 \<rparr>] \<and>
   triplet_list ex2_env (first_neighbours ex2_env 2 [0, 1]) = [] \<and>
   (\<exists>self'' res. calculate ex2_env ex_calc ex2_atoms = Inr self'' \<and>
      results self'' = Some res \<and> energy res = phi ex_calc (1 * 1) 1 0 0 0 \<and>
      energy res = 1)"
  using calculate_energy [where E = ex_env and self = ex_calc and a = ex_atoms
      and self' = "ex_calc\<lparr>atoms := Some ex_atoms, results := Some ex_results\<rparr>"
      and b = ex_atoms and z = 0 and ?r0.0 = 0]
    calculate_energy [where E = ex2_env and self = ex_calc and b = ex2_atoms and z = 14
      and ?r0.0 = 1 and ?c0.0 = "5 / 4" and a = ex_atoms]
    ex_calculate ex2_calculate
  by (simp add: ex_results_def ex2_atoms_def ex2_env_def ex2_pairs_def get_cutoff_def
      ex_calc_def Manybody_init_def)

text \<open>
  C4.  The stress that \<^verbatim>\<open>calculate\<close> stores is the virial tensor of the
  specification (outer products of the distance vectors with the pair forces, plus the
  outer products of the three bond vectors of every triplet with their force
  contributions), reduced to the six components in the order
  \<open>(xx, yy, zz, yz, xz, xy)\<close> and divided by the volume of the cell: the fourth slot
  holds the \<open>(y, z)\<close> component, the fifth the \<open>(x, z)\<close> component and the sixth the
  \<open>(x, y)\<close> component.
\<close>

theorem calculate_stress_virial:
  assumes "calculate E self a = Inr self'"
  shows "\<exists>c ps ts t_n xi_p d1phi_p d2phi_p fij_p fij_t fik_t fjk_t res.
    get_cutoff self a = Inr c \<and> neighbour_list E a c = Some ps \<and>
    ts = triplet_list E (first_neighbours E (len_atoms a) (i_p ps)) \<and>
    t_n = map (atom_type self) (numbers a) \<and>
    bincount (ij_t ts) (theta_family self (theta self) ps ts t_n) (length ps) = Inr xi_p \<and>
    d1phi_p = phi_family self (d1phi self) ps xi_p t_n \<and>
    d2phi_p = phi_family self (d2phi self) ps xi_p t_n \<and>
    fij_p = fij_pc d1phi_p ps \<and>
    fij_t = fij_tc d2phi_p (theta_family self (d1theta self) ps ts t_n) ps ts \<and>
    fik_t = fik_tc d2phi_p (theta_family self (d2theta self) ps ts t_n) ps ts \<and>
    fjk_t = fjk_tc d2phi_p (theta_family self (d3theta self) ps ts t_n) ps ts \<and>
    results self' = Some res \<and>
    stress res =
      map (\<lambda>v. v / volume a) (voigt (virial_tensor ps ts fij_p fij_t fik_t fjk_t)) \<and>
    stress res ! 3 = virial_tensor ps ts fij_p fij_t fik_t fjk_t 1 2 / volume a \<and>
    stress res ! 4 = virial_tensor ps ts fij_p fij_t fik_t fjk_t 0 2 / volume a \<and>
    stress res ! 5 = virial_tensor ps ts fij_p fij_t fik_t fjk_t 0 1 / volume a"
proof -
  from assms obtain c ps ts t_n xi_p d1phi_p d2phi_p fij_p fij_t fik_t fjk_t fo where
    h: "get_cutoff self a = Inr c"
    "neighbour_list E a c = Some ps"
    "ts = triplet_list E (first_neighbours E (len_atoms a) (i_p ps))"
    "t_n = map (atom_type self) (numbers a)"
    "bincount (ij_t ts) (theta_family self (theta self) ps ts t_n) (length ps) = Inr xi_p"
    "d1phi_p = phi_family self (d1phi self) ps xi_p t_n"
    "d2phi_p = phi_family self (d2phi self) ps xi_p t_n"
    "fij_p = fij_pc d1phi_p ps"
    "fij_t = fij_tc d2phi_p (theta_family self (d1theta self) ps ts t_n) ps ts"
    "fik_t = fik_tc d2phi_p (theta_family self (d2theta self) ps ts t_n) ps ts"
    "fjk_t = fjk_tc d2phi_p (theta_family self (d3theta self) ps ts t_n) ps ts"
    and rt: "in_range (length ps) (ij_t ts)" "in_range (length ps) (ik_t ts)"
    and s: "self' = self\<lparr>atoms := Some a, results := Some
      \<lparr> free_energy = (1 / 2) * sum_list (phi_family self (phi self) ps xi_p t_n),
        energy = (1 / 2) * sum_list (phi_family self (phi self) ps xi_p t_n),
        stress = map (\<lambda>v. v / volume a)
          (map2 (+) (virial_pair ps fij_p) (virial_triplet ps ts fij_t fik_t fjk_t)),
        forces = fo \<rparr>\<rparr>"
    by (rule calculate_InrE) blast
  have lp: "length fij_p = length ps"
    by (simp add: h(8) h(6) length_fij_pc)
  have lt: "length fij_t = length ts" "length fik_t = length ts" "length fjk_t = length ts"
    by (simp_all add: h(9) h(10) h(11) length_fij_tc length_fik_tc length_fjk_tc)
  have v: "map2 (+) (virial_pair ps fij_p) (virial_triplet ps ts fij_t fik_t fjk_t) =
      voigt (virial_tensor ps ts fij_p fij_t fik_t fjk_t)"
    unfolding virial_pair_voigt [OF lp] virial_triplet_voigt [OF lt rt] voigt_add
    by (simp add: virial_tensor_def [abs_def])
  define res where "res = the (results self')"
  have r: "results self' = Some res"
    and st: "stress res =
      map (\<lambda>v. v / volume a) (voigt (virial_tensor ps ts fij_p fij_t fik_t fjk_t))"
    by (simp_all add: res_def s v)
  have slots:
    "stress res ! 3 = virial_tensor ps ts fij_p fij_t fik_t fjk_t 1 2 / volume a"
    "stress res ! 4 = virial_tensor ps ts fij_p fij_t fik_t fjk_t 0 2 / volume a"
    "stress res ! 5 = virial_tensor ps ts fij_p fij_t fik_t fjk_t 0 1 / volume a"
    by (simp_all add: st voigt_def)
  from h r st slots show ?thesis by blast
qed

theorem calculate_stress_virial_witness:
  "calculate ex_env ex_calc ex_atoms =
     Inr (ex_calc\<lparr>atoms := Some ex_atoms, results := Some ex_results\<rparr>) \<and>
   stress ex_results = [9 / 8, 81 / 200, 18 / 25, 27 / 50, - (1 / 5), - (3 / 20)] \<and>
   (\<exists>ps ts fij_p fij_t fik_t fjk_t.
      neighbour_list ex_env ex_atoms (5 / 4) = Some ps \<and>
      stress ex_results =
        map (\<lambda>v. v / volume ex_atoms) (voigt (virial_tensor ps ts fij_p fij_t fik_t fjk_t)) \<and>
      stress ex_results ! 3 = virial_tensor ps ts fij_p fij_t fik_t fjk_t 1 2 / volume ex_atoms)"
proof -
  let ?s = "ex_calc\<lparr>atoms := Some ex_atoms, results := Some ex_results\<rparr>"
  from calculate_stress_virial [OF ex_calculate]
  obtain c ps ts fij_p fij_t fik_t fjk_t res where
    h: "get_cutoff ex_calc ex_atoms = Inr c" "neighbour_list ex_env ex_atoms c = Some ps"
      "results ?s = Some res"
      "stress res =
        map (\<lambda>v. v / volume ex_atoms) (voigt (virial_tensor ps ts fij_p fij_t fik_t fjk_t))"
      "stress res ! 3 = virial_tensor ps ts fij_p fij_t fik_t fjk_t 1 2 / volume ex_atoms"
    by blast
  from h(1) have c: "c = 5 / 4"
    by (simp add: get_cutoff_def ex_calc_def Manybody_init_def)
  from h(3) have r: "res = ex_results" by simp
  have "stress ex_results = [9 / 8, 81 / 200, 18 / 25, 27 / 50, - (1 / 5), - (3 / 20)]"
    by (simp add: ex_results_def)
  with h(2,4,5) ex_calculate show ?thesis
    unfolding c r by blast
qed

text \<open>
  C9.  \<^verbatim>\<open>calculate\<close> does not read what an earlier call left in the calculator: the
  stored configuration and the stored results of the object it is called on have no
  influence on what it returns, and calling it again on the state it returned, with
  the same configuration, returns that same state (the same energy, forces and stress).
\<close>

theorem calculate_two_run_determinism:
  "calculate E (self\<lparr>atoms := x, results := y\<rparr>) a = calculate E self a \<and>
   (calculate E self a = Inr self' \<longrightarrow> calculate E self' a = Inr self')"
proof (intro conjI impI)
  show "calculate E (self\<lparr>atoms := x, results := y\<rparr>) a = calculate E self a"
    by (rule calculate_ignores_state)
next
  assume r: "calculate E self a = Inr self'"
  then obtain res where "self' = self\<lparr>atoms := Some a, results := Some res\<rparr>"
    by (rule calculate_InrE) simp
  then show "calculate E self' a = Inr self'"
    using r by (simp add: calculate_ignores_state)
qed

theorem calculate_two_run_determinism_witness:
  "calculate ex_env ex_calc ex_atoms =
     Inr (ex_calc\<lparr>atoms := Some ex_atoms, results := Some ex_results\<rparr>) \<and>
   calculate ex_env (ex_calc\<lparr>atoms := Some ex_atoms, results := Some ex_results\<rparr>) ex_atoms =
     Inr (ex_calc\<lparr>atoms := Some ex_atoms, results := Some ex_results\<rparr>)"
  using calculate_two_run_determinism [where E = ex_env and self = ex_calc and a = ex_atoms
      and self' = "ex_calc\<lparr>atoms := Some ex_atoms, results := Some ex_results\<rparr>"]
    ex_calculate
  by simp

section \<open>Claims about the methods that read missing attributes\<close>

lemma bind_err_is_error:
  "(\<And>v. \<exists>e. f v = Inl e) \<Longrightarrow> \<exists>e. bind_err m f = Inl e"
  by (cases m) (simp_all add: bind_err_def)

lemma get_second_derivative_fails:
  "\<exists>e. get_second_derivative E self a drda drdb nl = Inl e"
  unfolding get_second_derivative_def Let_def
  by (intro bind_err_is_error) (simp split: option.split)

lemma get_non_affine_forces_fails:
  "\<exists>e. get_non_affine_forces E self a = Inl e"
  unfolding get_non_affine_forces_def Let_def
  by (intro bind_err_is_error) (simp split: option.split)

lemma get_second_derivative_attribute_error:
  assumes "get_cutoff self a = Inr c"
    and "nl = Some ps \<or> nl = None \<and> neighbour_list E a c = Some ps"
    and "length drda = length ps" "length drdb = length ps"
    and "in_range (len_atoms a) (i_p ps)" "in_range (len_atoms a) (j_p ps)"
    and "in_range (length ps)
           (map fst (triplet_list_jk E
              (first_neighbours E (len_atoms (stored_atoms self a)) (i_p ps))
              (r_p ps) c (i_p ps) (j_p ps)))"
    and "in_range (length ps)
           (map (fst \<circ> snd) (triplet_list_jk E
              (first_neighbours E (len_atoms (stored_atoms self a)) (i_p ps))
              (r_p ps) c (i_p ps) (j_p ps)))"
  shows "get_second_derivative E self a drda drdb nl = Inl (AttributeError ''G'')"
  using assms unfolding get_second_derivative_def Let_def
  by (auto simp: len_atoms_def)

lemma get_non_affine_forces_attribute_error:
  assumes "get_cutoff self a = Inr c"
    and "neighbour_list E a c = Some ps"
    and "in_range (len_atoms a) (i_p ps)" "in_range (len_atoms a) (j_p ps)"
    and "in_range (length ps)
           (map fst (triplet_list_jk E
              (first_neighbours E (len_atoms (stored_atoms self a)) (i_p ps))
              (r_p ps) c (i_p ps) (j_p ps)))"
    and "in_range (length ps)
           (map (fst \<circ> snd) (triplet_list_jk E
              (first_neighbours E (len_atoms (stored_atoms self a)) (i_p ps))
              (r_p ps) c (i_p ps) (j_p ps)))"
  shows "get_non_affine_forces E self a = Inl (AttributeError ''G'')"
  using assms unfolding get_non_affine_forces_def Let_def
  by (auto simp: len_atoms_def)

lemma naf_loop_fails:
  "idx \<noteq> [] \<Longrightarrow> \<exists>e. naf_loop E self a ps idx naF = Inl e"
proof (cases idx)
  case (Cons x rest)
  obtain m cm al be where x: "x = (m, cm, al, be)" by (cases x) auto
  obtain e where "get_second_derivative E self a (drda_pc ps al be) (drdb_pc ps m cm) (Some ps)
      = Inl e"
    using get_second_derivative_fails by blast
  then show ?thesis by (simp add: Cons x)
qed simp

lemma index_list_nonempty:
  "0 < n \<Longrightarrow>
   concat (map (\<lambda>m. concat (map (\<lambda>cm. concat (map (\<lambda>alpha.
      map (\<lambda>beta. (m, cm, alpha, beta)) [0..<3]) [0..<3])) [0..<3])) [0..<n]) \<noteq> []"
  by (cases n) (simp_all add: upt_conv_Cons del: upt_Suc)

lemma from_second_derivative_fails:
  assumes "0 < len_atoms (stored_atoms self a)"
  shows "\<exists>e. get_non_affine_forces_from_second_derivative E self a = Inl e"
  unfolding get_non_affine_forces_from_second_derivative_def Let_def
proof (intro bind_err_is_error)
  fix c
  show "\<exists>e. (case neighbour_list E a (2 * c) of
          None \<Rightarrow> Inl NeighbourListError
        | Some ps \<Rightarrow>
            bind_err
             (naf_loop E (self\<lparr>atoms := Some (stored_atoms self a)\<rparr>) a ps
               (concat (map (\<lambda>m. concat (map (\<lambda>cm. concat (map (\<lambda>alpha.
                  map (\<lambda>beta. (m, cm, alpha, beta)) [0..<3]) [0..<3])) [0..<3]))
                  [0..<len_atoms (stored_atoms self a)]))
               (\<lambda>m cm alpha beta. 0))
             (\<lambda>naF_ncab. Inr (\<lambda>m cm alpha beta. naF_ncab m cm alpha beta / 2))) = Inl e"
  proof (cases "neighbour_list E a (2 * c)")
    case (Some ps)
    obtain e where "naf_loop E (self\<lparr>atoms := Some (stored_atoms self a)\<rparr>) a ps
               (concat (map (\<lambda>m. concat (map (\<lambda>cm. concat (map (\<lambda>alpha.
                  map (\<lambda>beta. (m, cm, alpha, beta)) [0..<3]) [0..<3])) [0..<3]))
                  [0..<len_atoms (stored_atoms self a)]))
               (\<lambda>m cm alpha beta. 0) = Inl e"
      using naf_loop_fails [OF index_list_nonempty [OF assms]] by blast
    then show ?thesis by (simp add: Some)
  qed simp
qed


lemma from_second_derivative_attribute_error:
  assumes c: "get_cutoff self a = Inr c"
    and nl: "neighbour_list E a (2 * c) = Some ps"
    and n: "0 < len_atoms (stored_atoms self a)"
    and rp: "in_range (len_atoms a) (i_p ps)" "in_range (len_atoms a) (j_p ps)"
    and rt: "in_range (length ps)
           (map fst (triplet_list_jk E
              (first_neighbours E (len_atoms (stored_atoms self a)) (i_p ps))
              (r_p ps) c (i_p ps) (j_p ps)))"
      "in_range (length ps)
           (map (fst \<circ> snd) (triplet_list_jk E
              (first_neighbours E (len_atoms (stored_atoms self a)) (i_p ps))
              (r_p ps) c (i_p ps) (j_p ps)))"
  shows "get_non_affine_forces_from_second_derivative E self a = Inl (AttributeError ''G'')"
proof -
  let ?self = "self\<lparr>atoms := Some (stored_atoms self a)\<rparr>"
  let ?idx = "concat (map (\<lambda>m. concat (map (\<lambda>cm. concat (map (\<lambda>alpha.
      map (\<lambda>beta. (m, cm, alpha, beta)) [0..<3]) [0..<3])) [0..<3]))
      [0..<len_atoms (stored_atoms self a)])"
  have st: "stored_atoms ?self a = stored_atoms self a"
    by (simp add: stored_atoms_def)
  have sd: "get_second_derivative E ?self a (drda_pc ps al be) (drdb_pc ps m cm) (Some ps)
      = Inl (AttributeError ''G'')" for al be m cm
    by (rule get_second_derivative_attribute_error [where c = c and ps = ps])
      (simp_all add: c rp rt st drda_pc_def drdb_pc_def)
  from index_list_nonempty [OF n] obtain x rest where idx: "?idx = x # rest"
    by (cases ?idx) auto
  obtain m cm al be where x: "x = (m, cm, al, be)" by (cases x) auto
  have "naf_loop E ?self a ps ?idx (\<lambda>m cm alpha beta. 0) = Inl (AttributeError ''G'')"
    unfolding idx x by (simp add: sd)
  then show ?thesis
    unfolding get_non_affine_forces_from_second_derivative_def Let_def
    by (simp add: c nl)
qed

text \<open>
  C10.  \<^verbatim>\<open>get_second_derivative\<close> and \<^verbatim>\<open>get_non_affine_forces\<close> never return a
  result, whatever object of the class and whatever arguments they are called with;
  \<^verbatim>\<open>get_non_affine_forces_from_second_derivative\<close> never returns one when the stored
  configuration has an atom (its loop then calls \<^verbatim>\<open>get_second_derivative\<close>).  When
  the preparation before the first potential-dependent line succeeds (the cutoff is
  found, the neighbour list is delivered or passed in, the perturbation fields have one
  row per pair and the indices are in range), the failure is the attribute error for
  \<^verbatim>\<open>self.G\<close>, the first of the eleven attributes that \<^verbatim>\<open>__init__\<close> does not store.
\<close>

theorem missing_attributes:
  "(\<exists>e. get_second_derivative E self a drda drdb nl = Inl e) \<and>
   (\<exists>e. get_non_affine_forces E self a = Inl e) \<and>
   (0 < len_atoms (stored_atoms self a) \<longrightarrow>
      (\<exists>e. get_non_affine_forces_from_second_derivative E self a = Inl e)) \<and>
   (get_cutoff self a = Inr c \<and>
    (nl = Some ps \<or> nl = None \<and> neighbour_list E a c = Some ps) \<and>
    length drda = length ps \<and> length drdb = length ps \<and>
    in_range (len_atoms a) (i_p ps) \<and> in_range (len_atoms a) (j_p ps) \<and>
    in_range (length ps)
      (map fst (triplet_list_jk E
         (first_neighbours E (len_atoms (stored_atoms self a)) (i_p ps))
         (r_p ps) c (i_p ps) (j_p ps))) \<and>
    in_range (length ps)
      (map (fst \<circ> snd) (triplet_list_jk E
         (first_neighbours E (len_atoms (stored_atoms self a)) (i_p ps))
         (r_p ps) c (i_p ps) (j_p ps))) \<longrightarrow>
      get_second_derivative E self a drda drdb nl = Inl (AttributeError ''G'') \<and>
      (nl = None \<longrightarrow> get_non_affine_forces E self a = Inl (AttributeError ''G'')) \<and>
      (0 < len_atoms (stored_atoms self a) \<and> neighbour_list E a (2 * c) = Some ps \<longrightarrow>
         get_non_affine_forces_from_second_derivative E self a = Inl (AttributeError ''G'')))"
proof (intro conjI impI)
  show "\<exists>e. get_second_derivative E self a drda drdb nl = Inl e"
    by (rule get_second_derivative_fails)
  show "\<exists>e. get_non_affine_forces E self a = Inl e"
    by (rule get_non_affine_forces_fails)
  show "\<exists>e. get_non_affine_forces_from_second_derivative E self a = Inl e"
    if "0 < len_atoms (stored_atoms self a)"
    using that by (rule from_second_derivative_fails)
next
  assume h: "get_cutoff self a = Inr c \<and>
    (nl = Some ps \<or> nl = None \<and> neighbour_list E a c = Some ps) \<and>
    length drda = length ps \<and> length drdb = length ps \<and>
    in_range (len_atoms a) (i_p ps) \<and> in_range (len_atoms a) (j_p ps) \<and>
    in_range (length ps)
      (map fst (triplet_list_jk E
         (first_neighbours E (len_atoms (stored_atoms self a)) (i_p ps))
         (r_p ps) c (i_p ps) (j_p ps))) \<and>
    in_range (length ps)
      (map (fst \<circ> snd) (triplet_list_jk E
         (first_neighbours E (len_atoms (stored_atoms self a)) (i_p ps))
         (r_p ps) c (i_p ps) (j_p ps)))"
  then show "get_second_derivative E self a drda drdb nl = Inl (AttributeError ''G'')"
    by (intro get_second_derivative_attribute_error [where c = c and ps = ps]) simp_all
  show "get_non_affine_forces E self a = Inl (AttributeError ''G'')" if "nl = None"
    using h that
    by (intro get_non_affine_forces_attribute_error [where c = c and ps = ps]) simp_all
  show "get_non_affine_forces_from_second_derivative E self a = Inl (AttributeError ''G'')"
    if "0 < len_atoms (stored_atoms self a) \<and> neighbour_list E a (2 * c) = Some ps"
    using h that
    by (intro from_second_derivative_attribute_error [where c = c and ps = ps]) simp_all
qed

theorem missing_attributes_witness:
  "get_cutoff ex_calc ex_atoms = Inr (5 / 4) \<and>
   neighbour_list ex_env ex_atoms (5 / 4) = Some ex_pairs \<and>
   get_second_derivative ex_env ex_calc ex_atoms (drda_pc ex_pairs 0 1) (drdb_pc ex_pairs 0 0) None
     = Inl (AttributeError ''G'') \<and>
   get_non_affine_forces ex_env ex_calc ex_atoms = Inl (AttributeError ''G'') \<and>
   get_non_affine_forces_from_second_derivative ex_env ex_calc ex_atoms
     = Inl (AttributeError ''G'')"
  using missing_attributes [where E = ex_env and self = ex_calc and a = ex_atoms
      and drda = "drda_pc ex_pairs 0 1" and drdb = "drdb_pc ex_pairs 0 0" and nl = None
      and c = "5 / 4" and ps = ex_pairs]
  by (simp add: get_cutoff_def ex_defs in_range_def i_p_def j_p_def len_atoms_def
      stored_atoms_def drda_pc_def drdb_pc_def)

section \<open>The coordination on the three evaluation paths\<close>

lemma bincount_xi_spec:
  assumes "in_range n (ij_t ts)" "length th = length ts"
  shows "bincount (ij_t ts) th n = Inr (map (xi_spec ts th) [0..<n])"
proof -
  have "scatter_add (ij_t ts) th (replicate n 0) = map (xi_spec ts th) [0..<n]"
  proof (rule nth_equalityI)
    show "length (scatter_add (ij_t ts) th (replicate n 0)) = length (map (xi_spec ts th) [0..<n])"
      by simp
  next
    fix p assume "p < length (scatter_add (ij_t ts) th (replicate n 0))"
    then have p: "p < n" by simp
    have "scatter_add (ij_t ts) th (replicate n 0) ! p =
        (\<Sum>(k, w)\<leftarrow>zip (ij_t ts) th. if k = p then w else 0)"
      using p by (simp add: nth_scatter_add)
    also have "\<dots> = (\<Sum>t\<leftarrow>[0..<length (ij_t ts)]. if ij_t ts ! t = p then th ! t else 0)"
      by (rule sum_list_map2_upt) (simp add: assms(2))
    also have "\<dots> = xi_spec ts th p"
      unfolding xi_spec_def length_ij_t
      by (rule sum_list_upt_cong) (simp add: ij_t_def)
    finally show "scatter_add (ij_t ts) th (replicate n 0) ! p = map (xi_spec ts th) [0..<n] ! p"
      using p by simp
  qed
  then show ?thesis using assms by (simp add: bincount_ok)
qed


lemma born_blocks_atoms_upd [simp]:
  "born_blocks (self\<lparr>atoms := x\<rparr>) ps ts t_n = born_blocks self ps ts t_n"
  by (simp add: born_blocks_def)

lemma born_C_abab_atoms_upd [simp]:
  "born_C_abab (self\<lparr>atoms := x\<rparr>) ps ts t_n xi tmp = born_C_abab self ps ts t_n xi tmp"
  by (simp add: born_C_abab_def [abs_def])


lemma born_returns:
  assumes c: "get_cutoff self a = Inr c"
    and ps: "neighbour_list E a c = Some ps"
    and ts: "ts = triplet_list E (first_neighbours E (len_atoms (stored_atoms self a)) (i_p ps))"
    and rt: "in_range (length ps) (ij_t ts)" "in_range (length ps) (ik_t ts)"
    and rp: "in_range (len_atoms a) (i_p ps)" "in_range (len_atoms a) (j_p ps)"
  shows "\<exists>C. get_born_elastic_constants E self a = Inr C"
proof -
  have rp': "in_range (length (numbers a)) (i_p ps)" "in_range (length (numbers a)) (j_p ps)"
    using rp by (simp_all add: len_atoms_def)
  have l: "length (born_blocks self ps ts (map (atom_type self) (numbers a))) = length ts"
    by (simp add: born_blocks_def Let_def)
  show ?thesis
    unfolding get_born_elastic_constants_def Let_def
    using c ps rt rp' l unfolding ts
    by (simp add: bincount_xi_spec mabincount_cc_def)
qed

lemma get_hessian_name_error:
  assumes c: "get_cutoff self a = Inr c"
    and ps: "neighbour_list E a (2 * c) = Some ps"
    and ts: "ts = triplet_list E (first_neighbours E (len_atoms (stored_atoms self a)) (i_p ps))"
    and rt: "in_range (length ps) (ij_t ts)" "in_range (length ps) (ik_t ts)"
    and rp: "in_range (len_atoms a) (i_p ps)" "in_range (len_atoms a) (j_p ps)"
  shows "get_hessian E self a fmt dbm = Inl (NameError ''R_p'')"
proof -
  have rp': "in_range (length (numbers a)) (i_p ps)" "in_range (length (numbers a)) (j_p ps)"
    using rp by (simp_all add: len_atoms_def)
  show ?thesis
    unfolding get_hessian_def Let_def
    using c ps rt rp' unfolding ts
    by (simp add: bincount_xi_spec)
qed

lemma get_hessian_fails: "\<exists>e. get_hessian E self a fmt dbm = Inl e"
  unfolding get_hessian_def Let_def
  by (intro bind_err_is_error) (auto split: option.split intro!: bind_err_is_error)




section \<open>The Hessian and the spatial dimension\<close>

lemma get_cutoff_error: "get_cutoff self a = Inl e \<Longrightarrow> e = KeyError"
  by (auto simp: get_cutoff_def Let_def split: cutoff_spec.splits if_splits)

lemma bincount_error: "bincount x w n = Inl e \<Longrightarrow> e = ValueError"
  by (auto simp: bincount_def split: if_splits)

lemma mabincount_cc_error: "mabincount_cc x w n = Inl e \<Longrightarrow> e = ValueError"
  by (auto simp: mabincount_cc_def split: if_splits)

lemma get_hessian_no_unsupported:
  "get_hessian E self a fmt dbm \<noteq> Inl NotImplementedError"
proof
  assume "get_hessian E self a fmt dbm = Inl NotImplementedError"
  then show False
    unfolding get_hessian_def Let_def
    by (auto simp: bind_err_def split: sum.splits option.splits if_splits
        dest: get_cutoff_error bincount_error)
qed

lemma get_born_no_unsupported:
  "get_born_elastic_constants E self a \<noteq> Inl NotImplementedError"
proof
  assume "get_born_elastic_constants E self a = Inl NotImplementedError"
  then show False
    unfolding get_born_elastic_constants_def Let_def
    by (auto simp: bind_err_def split: sum.splits option.splits if_splits
        dest: get_cutoff_error bincount_error mabincount_cc_error)
qed

lemma positions_upd_irrelevant [simp]:
  "get_cutoff self (a\<lparr>positions := q\<rparr>) = get_cutoff self a"
  "len_atoms (a\<lparr>positions := q\<rparr>) = len_atoms a"
  "len_atoms (stored_atoms self (a\<lparr>positions := q\<rparr>)) = len_atoms (stored_atoms self a)"
  by (simp_all add: get_cutoff_def len_atoms_def stored_atoms_def Let_def
      split: cutoff_spec.splits option.splits)

lemma get_hessian_positions:
  assumes "neighbour_list E (a\<lparr>positions := q\<rparr>) = neighbour_list E a"
  shows "get_hessian E self (a\<lparr>positions := q\<rparr>) fmt dbm = get_hessian E self a fmt dbm"
  unfolding get_hessian_def Let_def using assms
  by (simp cong: if_cong option.case_cong)

lemma get_born_positions:
  assumes "neighbour_list E (a\<lparr>positions := q\<rparr>) = neighbour_list E a"
  shows "get_born_elastic_constants E self (a\<lparr>positions := q\<rparr>) =
         get_born_elastic_constants E self a"
  unfolding get_born_elastic_constants_def Let_def using assms
  by (simp cong: if_cong option.case_cong)

lemma ex_wf2:
  "get_cutoff ex_calc a = Inr (5 / 4)"
  "neighbour_list ex_env a c = Some ex_pairs"
  "[(0, 1), (1, 0)] = triplet_list ex_env (first_neighbours ex_env n i)"
  "in_range (length ex_pairs) (ij_t [(0, 1), (1, 0)])"
  "in_range (length ex_pairs) (ik_t [(0, 1), (1, 0)])"
  "in_range (len_atoms ex_atoms) (i_p ex_pairs)"
  "in_range (len_atoms ex_atoms) (j_p ex_pairs)"
  "len_atoms ex_atoms_2d = len_atoms ex_atoms"
  by (simp_all add: get_cutoff_def ex_defs in_range_def ij_t_def ik_t_def i_p_def j_p_def
      len_atoms_def ex_atoms_2d_def)

lemma ex2_wf:
  "get_cutoff ex_calc a = Inr (5 / 4)"
  "neighbour_list ex2_env a c = Some ex2_pairs"
  "[] = triplet_list ex2_env (first_neighbours ex2_env n i)"
  "in_range (length ex2_pairs) (ij_t [])"
  "in_range (length ex2_pairs) (ik_t [])"
  "in_range (len_atoms ex2_atoms) (i_p ex2_pairs)"
  "in_range (len_atoms ex2_atoms) (j_p ex2_pairs)"
  by (simp_all add: get_cutoff_def ex_calc_def Manybody_init_def ex2_env_def ex2_atoms_def
      ex2_pairs_def in_range_def ij_t_def ik_t_def i_p_def j_p_def len_atoms_def)

text \<open>
  C5.  \<^verbatim>\<open>get_hessian\<close> returns no Hessian, for any object, configuration and format:
  every call ends in an error, and when the preparation succeeds the error is the
  \<^verbatim>\<open>NameError\<close> for \<^verbatim>\<open>R_p\<close> at line 279, as for the two atoms below.  The diagonal
  blocks of lines 291--294 are therefore never computed.  Were they reached, the
  scatter-add without \<^verbatim>\<open>minlength\<close> would fail as soon as the atom of highest index
  owns no pair: with three atoms, of which only the first two are neighbours, the
  assignment of two entries to three atoms raises \<^verbatim>\<open>ValueError\<close>.
\<close>

theorem get_hessian_fails_before_assembly:
  "(\<exists>e. get_hessian E self a fmt dbm = Inl e) \<and>
   get_hessian ex2_env ex_calc ex2_atoms ''sparse'' False = Inl (NameError ''R_p'') \<and>
   H_acc 3 ex2_pairs ex_blocks = Inl ValueError"
proof (intro conjI)
  show "\<exists>e. get_hessian E self a fmt dbm = Inl e" by (rule get_hessian_fails)
  show "get_hessian ex2_env ex_calc ex2_atoms ''sparse'' False = Inl (NameError ''R_p'')"
    by (rule get_hessian_name_error [where a = ex2_atoms and self = ex_calc and E = ex2_env,
          OF ex2_wf])
  show "H_acc 3 ex2_pairs ex_blocks = Inl ValueError"
    by (simp add: H_acc_def ex2_pairs_def ex_blocks_def i_p_def bincount_def nb_bins_def
        upt_conv_Cons)
qed

text \<open>
  C6 (as amended).  Neither \<^verbatim>\<open>get_hessian\<close> nor \<^verbatim>\<open>get_born_elastic_constants\<close> ever
  reports an unsupported-operation error, and neither looks at the dimension of the
  configuration: the positions reach them only through the neighbour list, whose
  distance vectors have three components, so that two configurations that differ in
  their positions alone and have the same neighbour list are treated alike.
\<close>

theorem no_dimension_check:
  "get_hessian E self a fmt dbm \<noteq> Inl NotImplementedError \<and>
   get_born_elastic_constants E self a \<noteq> Inl NotImplementedError \<and>
   (neighbour_list E (a\<lparr>positions := q\<rparr>) = neighbour_list E a \<longrightarrow>
      get_hessian E self (a\<lparr>positions := q\<rparr>) fmt dbm = get_hessian E self a fmt dbm \<and>
      get_born_elastic_constants E self (a\<lparr>positions := q\<rparr>) =
        get_born_elastic_constants E self a)"
  using get_hessian_no_unsupported get_born_no_unsupported get_hessian_positions
    get_born_positions by blast

theorem no_dimension_check_witness:
  "neighbour_list ex_env (ex_atoms\<lparr>positions := [[0, 0], [1, 0], [0, 1]]\<rparr>) =
     neighbour_list ex_env ex_atoms \<and>
   get_hessian ex_env ex_calc (ex_atoms\<lparr>positions := [[0, 0], [1, 0], [0, 1]]\<rparr>) ''sparse'' False =
     get_hessian ex_env ex_calc ex_atoms ''sparse'' False \<and>
   get_born_elastic_constants ex_env ex_calc (ex_atoms\<lparr>positions := [[0, 0], [1, 0], [0, 1]]\<rparr>) =
     get_born_elastic_constants ex_env ex_calc ex_atoms \<and>
   get_hessian ex_env ex_calc ex_atoms ''sparse'' False \<noteq> Inl NotImplementedError"
  using no_dimension_check [where E = ex_env and self = ex_calc and a = ex_atoms
      and q = "[[0, 0], [1, 0], [0, 1]]" and fmt = "''sparse''" and dbm = False]
  by (simp add: ex_env_def)

text \<open>
  C6 as stated fails: for a configuration whose positions have two components,
  \<^verbatim>\<open>get_hessian\<close> reports the \<^verbatim>\<open>NameError\<close> of every other call, not an
  unsupported-operation error, and \<^verbatim>\<open>get_born_elastic_constants\<close> returns a tensor.
\<close>

theorem dimension_not_reported:
  "\<not> has_dimension 3 ex_atoms_2d \<and>
   get_hessian ex_env ex_calc ex_atoms_2d ''sparse'' False = Inl (NameError ''R_p'') \<and>
   get_hessian ex_env ex_calc ex_atoms_2d ''sparse'' False \<noteq> Inl NotImplementedError \<and>
   \<not> isl (get_born_elastic_constants ex_env ex_calc ex_atoms_2d)"
proof -
  have 1: "\<not> has_dimension 3 ex_atoms_2d"
    by (simp add: has_dimension_def ex_atoms_2d_def)
  have 2: "get_hessian ex_env ex_calc ex_atoms_2d ''sparse'' False = Inl (NameError ''R_p'')"
    by (rule get_hessian_name_error [where a = ex_atoms_2d and self = ex_calc and E = ex_env,
          OF ex_wf2(1) ex_wf2(2) ex_wf2(3) ex_wf2(4) ex_wf2(5)])
      (simp_all add: ex_wf2)
  obtain C where "get_born_elastic_constants ex_env ex_calc ex_atoms_2d = Inr C"
    using born_returns [where a = ex_atoms_2d and self = ex_calc and E = ex_env,
        OF ex_wf2(1) ex_wf2(2) ex_wf2(3) ex_wf2(4) ex_wf2(5)]
    by (auto simp: ex_wf2)
  then have 3: "\<not> isl (get_born_elastic_constants ex_env ex_calc ex_atoms_2d)" by simp
  from 1 2 3 show ?thesis by simp
qed

section \<open>The non-affine contribution to the elastic constants\<close>



lemma cg_loop_first_failure:
  assumes "k < length idx" "idx ! k = (i, j)" "snd (cg H (cg_rhs naf i j) tol) \<noteq> 0"
    and "\<forall>m<k. snd (cg H (cg_rhs naf (fst (idx ! m)) (snd (idx ! m))) tol) = 0 \<and>
               length (fst (cg H (cg_rhs naf (fst (idx ! m)) (snd (idx ! m))) tol)) = 3 * n"
  shows "cg_loop cg H naf n tol idx D calls =
           (calls @ take (Suc k) idx, Inl (RuntimeError cg_message))"
  using assms
proof (induction idx arbitrary: k D calls)
  case Nil
  then show ?case by simp
next
  case (Cons x rest)
  obtain i0 j0 where x: "x = (i0, j0)" by (cases x) auto
  obtain y info where r: "cg H (cg_rhs naf i0 j0) tol = (y, info)"
    by (cases "cg H (cg_rhs naf i0 j0) tol") auto
  show ?case
  proof (cases k)
    case 0
    with Cons.prems x r show ?thesis by simp
  next
    case (Suc k')
    from Cons.prems(4) Suc x r have ok: "info = 0" "length y = 3 * n"
      by (auto dest: spec [of _ 0])
    have "cg_loop cg H naf n tol rest (D(i0 := (D i0)(j0 := y))) (calls @ [(i0, j0)]) =
        ((calls @ [(i0, j0)]) @ take (Suc k') rest, Inl (RuntimeError cg_message))"
    proof (rule Cons.IH)
      show "k' < length rest" using Cons.prems(1) Suc by simp
      show "rest ! k' = (i, j)" using Cons.prems(2) Suc by simp
      show "snd (cg H (cg_rhs naf i j) tol) \<noteq> 0" by (rule Cons.prems(3))
      show "\<forall>m<k'. snd (cg H (cg_rhs naf (fst (rest ! m)) (snd (rest ! m))) tol) = 0 \<and>
          length (fst (cg H (cg_rhs naf (fst (rest ! m)) (snd (rest ! m))) tol)) = 3 * n"
      proof (intro allI impI)
        fix m assume "m < k'"
        then have "Suc m < k" using Suc by simp
        with Cons.prems(4) show "snd (cg H (cg_rhs naf (fst (rest ! m)) (snd (rest ! m))) tol) = 0 \<and>
          length (fst (cg H (cg_rhs naf (fst (rest ! m)) (snd (rest ! m))) tol)) = 3 * n"
          by (auto dest: spec [of _ "Suc m"])
      qed
    qed
    then show ?thesis using x r ok Suc by simp
  qed
qed


lemma strain_index_pairs_eval:
  "strain_index_pairs = [(0, 0), (0, 1), (0, 2), (1, 0), (1, 1), (1, 2), (2, 0), (2, 1), (2, 2)]"
  by (simp add: strain_index_pairs_def upt_conv_Cons)

lemmas nacec_defs = get_non_affine_contribution_to_elastic_constants_def ex_attached_def
  ex1_atoms_def len_atoms_def strain_index_pairs_eval cg_rhs_def naf_row_def upt_conv_Cons

text \<open>
  C7 (as amended).  In the path without eigenvalues, when the solver reports a non-zero
  \<^verbatim>\<open>info\<close> for one pair of strain indices, after converging with a solution of the
  right length for the pairs before it, the method raises \<^verbatim>\<open>RuntimeError\<close>; the solver
  has then been called once for each pair up to and including the failing one, in
  order, and for no other (no retry, no further solve; the nine pairs are distinct).
  The error is the fixed message of line 635 whatever the value of \<^verbatim>\<open>info\<close>.
\<close>

theorem cg_failure_is_fatal:
  assumes "evals = None \<or> evecs = None"
    and "calc_get_hessian calc a ''sparse'' = Inr H"
    and "calc_get_non_affine_forces calc a = Inr naf"
    and "k < length strain_index_pairs" and "strain_index_pairs ! k = (i, j)"
    and "snd (cg H (cg_rhs naf i j) tol) \<noteq> 0"
    and "\<forall>m<k. snd (cg H (cg_rhs naf (fst (strain_index_pairs ! m))
                         (snd (strain_index_pairs ! m))) tol) = 0 \<and>
               length (fst (cg H (cg_rhs naf (fst (strain_index_pairs ! m))
                         (snd (strain_index_pairs ! m))) tol)) = 3 * len_atoms a"
  shows "get_non_affine_contribution_to_elastic_constants cg calc a evals evecs tol =
           Inl (RuntimeError cg_message) \<and>
         fst (cg_loop cg H naf (len_atoms a) tol strain_index_pairs
                (\<lambda>i j. replicate (3 * len_atoms a) 0) []) = take (Suc k) strain_index_pairs \<and>
         distinct strain_index_pairs \<and> length strain_index_pairs = 9"
proof -
  have l: "cg_loop cg H naf (len_atoms a) tol strain_index_pairs
      (\<lambda>i j. replicate (3 * len_atoms a) 0) [] =
      ([] @ take (Suc k) strain_index_pairs, Inl (RuntimeError cg_message))"
    by (rule cg_loop_first_failure [where cg = cg and H = H and naf = naf and i = i and j = j
          and tol = tol, OF assms(4) assms(5) assms(6) assms(7)])
  have "get_non_affine_contribution_to_elastic_constants cg calc a evals evecs tol =
      Inl (RuntimeError cg_message)"
    unfolding get_non_affine_contribution_to_elastic_constants_def Let_def
    using assms(1) assms(2) assms(3) l by auto
  moreover have "distinct strain_index_pairs" "length strain_index_pairs = 9"
    by (simp_all add: strain_index_pairs_eval)
  ultimately show ?thesis using l by simp
qed

theorem cg_failure_is_fatal_witness:
  "get_non_affine_contribution_to_elastic_constants cg_fails_late ex_attached ex1_atoms
     None None (1 / 100000) = Inl (RuntimeError cg_message) \<and>
   fst (cg_loop cg_fails_late () [\<lambda>c a b. 3 * real a + real b] (len_atoms ex1_atoms)
          (1 / 100000) strain_index_pairs (\<lambda>i j. replicate (3 * len_atoms ex1_atoms) 0) []) =
     [(0, 0), (0, 1), (0, 2), (1, 0), (1, 1), (1, 2)]"
proof -
  let ?naf = "[\<lambda>c a b. 3 * real a + real b] :: naforces"
  have h1: "(None :: real list option) = None \<or> (None :: real list list option) = None"
    by simp
  have h2: "calc_get_hessian ex_attached ex1_atoms ''sparse'' = Inr ()"
    and h3: "calc_get_non_affine_forces ex_attached ex1_atoms = Inr ?naf"
    by (simp_all add: ex_attached_def)
  have h4: "5 < length strain_index_pairs" and h5: "strain_index_pairs ! 5 = (1, 2)"
    by (simp_all add: strain_index_pairs_eval)
  have h6: "snd (cg_fails_late () (cg_rhs ?naf 1 2) (1 / 100000)) \<noteq> 0"
    by (simp add: cg_fails_late_def cg_rhs_def naf_row_def upt_conv_Cons)
  have h7: "\<forall>m<5. snd (cg_fails_late () (cg_rhs ?naf (fst (strain_index_pairs ! m))
                         (snd (strain_index_pairs ! m))) (1 / 100000)) = 0 \<and>
               length (fst (cg_fails_late () (cg_rhs ?naf (fst (strain_index_pairs ! m))
                         (snd (strain_index_pairs ! m))) (1 / 100000))) = 3 * len_atoms ex1_atoms"
  proof (intro allI impI)
    fix m :: nat assume "m < 5"
    then consider "m = 0" | "m = 1" | "m = 2" | "m = 3" | "m = 4" by linarith
    then show "snd (cg_fails_late () (cg_rhs ?naf (fst (strain_index_pairs ! m))
                         (snd (strain_index_pairs ! m))) (1 / 100000)) = 0 \<and>
               length (fst (cg_fails_late () (cg_rhs ?naf (fst (strain_index_pairs ! m))
                         (snd (strain_index_pairs ! m))) (1 / 100000))) = 3 * len_atoms ex1_atoms"
      by cases
        (simp_all add: strain_index_pairs_eval cg_fails_late_def cg_rhs_def naf_row_def
          upt_conv_Cons len_atoms_def ex1_atoms_def)
  qed
  have t: "take (Suc 5) strain_index_pairs = [(0, 0), (0, 1), (0, 2), (1, 0), (1, 1), (1, 2)]"
    by (simp add: strain_index_pairs_eval)
  from cg_failure_is_fatal [where cg = cg_fails_late and tol = "1 / 100000",
      OF h1 h2 h3 h4 h5 h6 h7]
  show ?thesis unfolding t by blast
qed

text \<open>
  C7 as stated fails: a solver that reports a positive \<^verbatim>\<open>info\<close> and one that reports a
  negative \<^verbatim>\<open>info\<close> lead to the same error, with the same message, so the error does
  not tell the two reasons apart.
\<close>

theorem cg_error_does_not_distinguish:
  "get_non_affine_contribution_to_elastic_constants cg_info_positive ex_attached ex1_atoms
     None None (1 / 100000) = Inl (RuntimeError cg_message) \<and>
   get_non_affine_contribution_to_elastic_constants cg_info_negative ex_attached ex1_atoms
     None None (1 / 100000) = Inl (RuntimeError cg_message)"
  by (simp add: nacec_defs cg_info_positive_def cg_info_negative_def Let_def)



end
